theory Spec2Isabelle
  imports Complex_Main "HOL-Library.Word"
begin

unbundle bit_operations_syntax

section \<open>Data model of the I2S sound device (lib/i2ssoundbasedevice.cpp)\<close>

text \<open>
  The driver is a C++ class whose methods write peripheral registers, call the GPIO, clock,
  I2C and DMA-buffer collaborators and update a handful of member variables. The embedding
  keeps the member variables in a record, together with the contents of the PCM registers
  and a chronological log of every call made to a collaborator. The answers of the
  collaborators (bytes transferred on the I2C bus, whether a DMA buffer pair could be
  started, ...) are not decided by this file: they are parameters, functions of the log so
  far, collected in the record \<open>env\<close>.
\<close>

type_synonym u8 = "8 word"
type_synonym u32 = "32 word"

text \<open>
  \<open>TDeviceMode\<close> is declared in the class header; the source file names
  \<open>DeviceModeTXOnly\<close> and \<open>DeviceModeRXOnly\<close>, the third enumerator is the duplex mode.
\<close>

datatype TDeviceMode = DeviceModeTXOnly | DeviceModeRXOnly | DeviceModeTXRX

text \<open>
  Of \<open>TMachineModel\<close> the source distinguishes three early models; every other enumerator
  behaves alike and is folded into \<open>MachineModelOther\<close>.
\<close>

datatype TMachineModel =
  MachineModelA | MachineModelBRelease2MB256 | MachineModelBRelease2MB512 | MachineModelOther

datatype TGPIOMode = GPIOModeInput | GPIOModeAlternateFunction0 | GPIOModeAlternateFunction2

text \<open>The PCM registers the driver touches, and its four GPIO pin objects.\<close>

datatype reg = ARM_PCM_CS_A | ARM_PCM_MODE_A | ARM_PCM_RXC_A | ARM_PCM_TXC_A | ARM_PCM_DREQ_A

datatype pin = m_PCMCLKPin | m_PCMFSPin | m_PCMDINPin | m_PCMDOUTPin

datatype handler = TXCompleted | RXCompleted

text \<open>
  One event per call to a collaborator. \<open>I2CWrite a bs r\<close> is
  \<open>m_pI2CMaster->Write (a, bs, length bs)\<close> returning \<open>r\<close>; \<open>TXBuffersStart h ok\<close> is
  \<open>m_TXBuffers.Start (h, this)\<close> returning \<open>ok\<close>.
\<close>

datatype event =
    PeripheralEntry
  | PeripheralExit
  | Write32 reg u32
  | usDelay nat
  | ClockStart u32 u32 u32
  | ClockStop
  | AssignPin pin u32
  | SetMode pin TGPIOMode
  | I2CWrite u8 "u8 list" int
  | TXBuffersStart handler bool
  | RXBuffersStart handler bool
  | TXBuffersCancel
  | RXBuffersCancel
  | GetChunk u32 u32
  | PutChunk u32
  | AddDevice string
  | RemoveDevice string

record env =
  GetGPIOClockSourceRate :: u32
  GetMachineModel :: TMachineModel
  I2C_Write :: "event list \<Rightarrow> u8 \<Rightarrow> u8 list \<Rightarrow> int"
  TXBuffers_Start :: "event list \<Rightarrow> bool"
  RXBuffers_Start :: "event list \<Rightarrow> bool"
  TXBuffers_IsActive :: "event list \<Rightarrow> bool"
  RXBuffers_IsActive :: "event list \<Rightarrow> bool"
  GetChunk_result :: "event list \<Rightarrow> u32 \<Rightarrow> u32"

text \<open>
  The object: its member variables (\<open>m_pI2CMaster\<close> is kept as "the pointer is not null"),
  the register file and the log. A register reads back what was last written to it.
\<close>

record device =
  m_nSampleRate :: u32
  m_nChunkSize :: u32
  m_bSlave :: bool
  m_pI2CMaster :: bool
  m_ucI2CAddress :: u8
  m_DeviceMode :: TDeviceMode
  m_bI2CInited :: bool
  m_bError :: bool
  regs :: "reg \<Rightarrow> u32"
  trace :: "event list"

datatype error = AssertionFailed

definition emit :: "event \<Rightarrow> device \<Rightarrow> device" where
  "emit e s = s\<lparr>trace := trace s @ [e]\<rparr>"

definition read32 :: "device \<Rightarrow> reg \<Rightarrow> u32" where
  "read32 s r = regs s r"

definition write32 :: "reg \<Rightarrow> u32 \<Rightarrow> device \<Rightarrow> device" where
  "write32 r v s = emit (Write32 r v) (s\<lparr>regs := (regs s)(r := v)\<rparr>)"

subsection \<open>Constants\<close>

definition CHANS :: u32 where "CHANS = 2"
definition CHANLEN :: u32 where "CHANLEN = 32"

definition CS_A_STBY :: u32 where "CS_A_STBY = push_bit 25 1"
definition CS_A_RXSEX :: u32 where "CS_A_RXSEX = push_bit 23 1"
definition CS_A_DMAEN :: u32 where "CS_A_DMAEN = push_bit 9 1"
definition CS_A_RXCLR :: u32 where "CS_A_RXCLR = push_bit 4 1"
definition CS_A_TXCLR :: u32 where "CS_A_TXCLR = push_bit 3 1"
definition CS_A_TXON :: u32 where "CS_A_TXON = push_bit 2 1"
definition CS_A_RXON :: u32 where "CS_A_RXON = push_bit 1 1"
definition CS_A_EN :: u32 where "CS_A_EN = push_bit 0 1"

definition MODE_A_CLKI :: u32 where "MODE_A_CLKI = push_bit 22 1"
definition MODE_A_CLKM :: u32 where "MODE_A_CLKM = push_bit 23 1"
definition MODE_A_FSI :: u32 where "MODE_A_FSI = push_bit 20 1"
definition MODE_A_FSM :: u32 where "MODE_A_FSM = push_bit 21 1"
definition MODE_A_FLEN__SHIFT :: nat where "MODE_A_FLEN__SHIFT = 10"
definition MODE_A_FSLEN__SHIFT :: nat where "MODE_A_FSLEN__SHIFT = 0"

definition RXC_A_CH1WEX :: u32 where "RXC_A_CH1WEX = push_bit 31 1"
definition RXC_A_CH1EN :: u32 where "RXC_A_CH1EN = push_bit 30 1"
definition RXC_A_CH1POS__SHIFT :: nat where "RXC_A_CH1POS__SHIFT = 20"
definition RXC_A_CH1WID__SHIFT :: nat where "RXC_A_CH1WID__SHIFT = 16"
definition RXC_A_CH2WEX :: u32 where "RXC_A_CH2WEX = push_bit 15 1"
definition RXC_A_CH2EN :: u32 where "RXC_A_CH2EN = push_bit 14 1"
definition RXC_A_CH2POS__SHIFT :: nat where "RXC_A_CH2POS__SHIFT = 4"
definition RXC_A_CH2WID__SHIFT :: nat where "RXC_A_CH2WID__SHIFT = 0"

definition TXC_A_CH1WEX :: u32 where "TXC_A_CH1WEX = push_bit 31 1"
definition TXC_A_CH1EN :: u32 where "TXC_A_CH1EN = push_bit 30 1"
definition TXC_A_CH1POS__SHIFT :: nat where "TXC_A_CH1POS__SHIFT = 20"
definition TXC_A_CH1WID__SHIFT :: nat where "TXC_A_CH1WID__SHIFT = 16"
definition TXC_A_CH2WEX :: u32 where "TXC_A_CH2WEX = push_bit 15 1"
definition TXC_A_CH2EN :: u32 where "TXC_A_CH2EN = push_bit 14 1"
definition TXC_A_CH2POS__SHIFT :: nat where "TXC_A_CH2POS__SHIFT = 4"
definition TXC_A_CH2WID__SHIFT :: nat where "TXC_A_CH2WID__SHIFT = 0"

definition DREQ_A_TX__SHIFT :: nat where "DREQ_A_TX__SHIFT = 8"
definition DREQ_A_TX__MASK :: u32 where "DREQ_A_TX__MASK = push_bit 8 0x7F"
definition DREQ_A_RX__SHIFT :: nat where "DREQ_A_RX__SHIFT = 0"
definition DREQ_A_RX__MASK :: u32 where "DREQ_A_RX__MASK = push_bit 0 0x7F"

subsection \<open>The clock divider (constructor, lines 114 to 127)\<close>

text \<open>
  The three local variables of the constructor, each as the source computes it, in 32-bit
  unsigned arithmetic: division truncates, multiplication and addition wrap.
\<close>

definition nDivI_init :: "u32 \<Rightarrow> u32 \<Rightarrow> u32" where
  "nDivI_init nClockFreq nSampleRate = nClockFreq div (CHANLEN * CHANS) div nSampleRate"

definition nTemp :: "u32 \<Rightarrow> u32 \<Rightarrow> u32" where
  "nTemp nClockFreq nSampleRate = nClockFreq div (CHANLEN * CHANS) mod nSampleRate"

definition nDivF_init :: "u32 \<Rightarrow> u32 \<Rightarrow> u32" where
  "nDivF_init nClockFreq nSampleRate =
     (nTemp nClockFreq nSampleRate * 4096 + nSampleRate div 2) div nSampleRate"

text \<open>
  The assertions and the carry. The result is the pair \<open>(nDivI, nDivF)\<close> handed to
  \<open>m_Clock.Start\<close>; a failed assertion stops the constructor.
\<close>

definition ClockDivider :: "u32 \<Rightarrow> u32 \<Rightarrow> error + (u32 \<times> u32)" where
  "ClockDivider nClockFreq nSampleRate =
     (if \<not> (nClockFreq > 0) then Inl AssertionFailed
      else if \<not> (8000 \<le> nSampleRate \<and> nSampleRate \<le> 192000) then Inl AssertionFailed
      else if \<not> (nClockFreq mod (CHANLEN * CHANS) = 0) then Inl AssertionFailed
      else
        let nDivI = nDivI_init nClockFreq nSampleRate;
            nDivF = nDivF_init nClockFreq nSampleRate
        in if \<not> (nDivF \<le> 4096) then Inl AssertionFailed
           else if nDivF > 4095 then Inr (nDivI + 1, 0)
           else Inr (nDivI, nDivF))"

subsection \<open>Sample range\<close>

text \<open>Both accessors return a C \<open>int\<close>, here a 32-bit word read as two's complement.\<close>

definition GetRangeMin :: "device \<Rightarrow> int" where
  "GetRangeMin s = sint (- (push_bit 23 1) + 1 :: u32)"

definition GetRangeMax :: "device \<Rightarrow> int" where
  "GetRangeMax s = sint (push_bit 23 1 - 1 :: u32)"

subsection \<open>RunI2S and StopI2S\<close>

definition RunI2S :: "env \<Rightarrow> device \<Rightarrow> device" where
  "RunI2S env s =
     (let s = emit PeripheralEntry s;
          s = write32 ARM_PCM_CS_A 0 s;
          s = emit (usDelay 10) s;
          s = write32 ARM_PCM_CS_A (read32 s ARM_PCM_CS_A OR CS_A_TXCLR OR CS_A_RXCLR) s;
          s = emit (usDelay 10) s;
          s = write32 ARM_PCM_TXC_A
                (TXC_A_CH1WEX OR TXC_A_CH1EN
                 OR push_bit TXC_A_CH1POS__SHIFT 1
                 OR push_bit TXC_A_CH1WID__SHIFT 0
                 OR TXC_A_CH2WEX OR TXC_A_CH2EN
                 OR push_bit TXC_A_CH2POS__SHIFT (CHANLEN + 1)
                 OR push_bit TXC_A_CH2WID__SHIFT 0) s;
          s = write32 ARM_PCM_RXC_A
                (RXC_A_CH1WEX OR RXC_A_CH1EN
                 OR push_bit RXC_A_CH1POS__SHIFT 1
                 OR push_bit RXC_A_CH1WID__SHIFT 0
                 OR RXC_A_CH2WEX OR RXC_A_CH2EN
                 OR push_bit RXC_A_CH2POS__SHIFT (CHANLEN + 1)
                 OR push_bit RXC_A_CH2WID__SHIFT 0) s;
          nModeA = MODE_A_CLKI OR MODE_A_FSI
                   OR push_bit MODE_A_FLEN__SHIFT (CHANS * CHANLEN - 1)
                   OR push_bit MODE_A_FSLEN__SHIFT CHANLEN;
          nModeA = (if m_bSlave s then nModeA OR MODE_A_CLKM OR MODE_A_FSM else nModeA);
          s = write32 ARM_PCM_MODE_A nModeA s;
          Model = GetMachineModel env;
          early = (Model = MachineModelA \<or> Model = MachineModelBRelease2MB256
                   \<or> Model = MachineModelBRelease2MB512);
          nPinBase = (if early then 28 else 18);
          GPIOMode = (if early then GPIOModeAlternateFunction2 else GPIOModeAlternateFunction0);
          s = emit (AssignPin m_PCMCLKPin nPinBase) s;
          s = emit (SetMode m_PCMCLKPin GPIOMode) s;
          s = emit (AssignPin m_PCMFSPin (nPinBase + 1)) s;
          s = emit (SetMode m_PCMFSPin GPIOMode) s;
          s = (if m_DeviceMode s \<noteq> DeviceModeTXOnly
               then emit (SetMode m_PCMDINPin GPIOMode) (emit (AssignPin m_PCMDINPin (nPinBase + 2)) s)
               else s);
          s = (if m_DeviceMode s \<noteq> DeviceModeRXOnly
               then emit (SetMode m_PCMDOUTPin GPIOMode) (emit (AssignPin m_PCMDOUTPin (nPinBase + 3)) s)
               else s);
          s = write32 ARM_PCM_CS_A (read32 s ARM_PCM_CS_A OR CS_A_STBY) s;
          s = emit (usDelay 50) s;
          s = write32 ARM_PCM_CS_A (read32 s ARM_PCM_CS_A OR CS_A_EN) s;
          s = emit (usDelay 10) s
      in emit PeripheralExit s)"

definition StopI2S :: "device \<Rightarrow> device" where
  "StopI2S s =
     (let s = emit PeripheralEntry s;
          s = write32 ARM_PCM_CS_A 0 s;
          s = emit (usDelay 50) s;
          s = emit PeripheralExit s;
          s = (if \<not> m_bSlave s then emit ClockStop s else s);
          s = emit (SetMode m_PCMCLKPin GPIOModeInput) s;
          s = emit (SetMode m_PCMFSPin GPIOModeInput) s;
          s = (if m_DeviceMode s \<noteq> DeviceModeTXOnly
               then emit (SetMode m_PCMDINPin GPIOModeInput) s else s)
      in (if m_DeviceMode s \<noteq> DeviceModeRXOnly
          then emit (SetMode m_PCMDOUTPin GPIOModeInput) s else s))"

subsection \<open>Constructor and destructor\<close>

text \<open>
  The constructor takes the contents of the PCM registers it finds (\<open>regs0\<close>); the log
  starts empty. A failed assertion is the result \<open>Inl AssertionFailed\<close>: no object.
\<close>

definition CI2SSoundBaseDevice ::
  "env \<Rightarrow> (reg \<Rightarrow> u32) \<Rightarrow> u32 \<Rightarrow> u32 \<Rightarrow> bool \<Rightarrow> bool \<Rightarrow> u8 \<Rightarrow> TDeviceMode \<Rightarrow> error + device" where
  "CI2SSoundBaseDevice env regs0 nSampleRate nChunkSize bSlave pI2CMaster ucI2CAddress DeviceMode =
     (let s0 = \<lparr>m_nSampleRate = nSampleRate, m_nChunkSize = nChunkSize, m_bSlave = bSlave,
                m_pI2CMaster = pI2CMaster, m_ucI2CAddress = ucI2CAddress,
                m_DeviceMode = DeviceMode, m_bI2CInited = False, m_bError = False,
                regs = regs0, trace = []\<rparr>
      in if \<not> (m_nChunkSize s0 \<ge> 32) then Inl AssertionFailed
         else if \<not> (m_nChunkSize s0 AND 1 = 0) then Inl AssertionFailed
         else
           (case (if \<not> m_bSlave s0 then
                    (case ClockDivider (GetGPIOClockSourceRate env) nSampleRate of
                       Inl e \<Rightarrow> Inl e
                     | Inr (nDivI, nDivF) \<Rightarrow>
                         Inr (emit (ClockStart nDivI nDivF (if nDivF > 0 then 1 else 0)) s0))
                  else Inr s0) of
              Inl e \<Rightarrow> Inl e
            | Inr s1 \<Rightarrow> Inr (emit (AddDevice ''sndi2s'') (RunI2S env s1))))"

definition Destructor :: "device \<Rightarrow> device" where
  "Destructor s = StopI2S (emit (RemoveDevice ''sndi2s'') s)"

subsection \<open>Codec bring-up over I2C\<close>

text \<open>
  \<open>InitPCM51xx\<close> and \<open>InitWM8960\<close> end in the same loop over their table: write the
  command, return FALSE at the first write that does not transfer \<open>sizeof (command)\<close>
  bytes. The value returned by \<open>Write\<close> is a C \<open>int\<close> (negative on error).
\<close>

fun WriteCommands :: "env \<Rightarrow> u8 \<Rightarrow> u8 list list \<Rightarrow> device \<Rightarrow> bool \<times> device" where
  "WriteCommands env ucI2CAddress [] s = (True, s)"
| "WriteCommands env ucI2CAddress (command # rest) s =
     (let r = I2C_Write env (trace s) ucI2CAddress command;
          s' = emit (I2CWrite ucI2CAddress command r) s
      in if r \<noteq> int (length command) then (False, s')
         else WriteCommands env ucI2CAddress rest s')"

definition initBytes_PCM51xx :: "u8 list list" where
  "initBytes_PCM51xx = [[0x0d, 0x10], [0x25, 0x08], [0x41, 0x04]]"

definition InitPCM51xx :: "env \<Rightarrow> u8 \<Rightarrow> device \<Rightarrow> bool \<times> device" where
  "InitPCM51xx env ucI2CAddress s = WriteCommands env ucI2CAddress initBytes_PCM51xx s"

text \<open>
  The macro \<open>SHIFT_BIT(r, v)\<close>: its arguments are \<open>int\<close> constants, the two results
  initialise \<open>u8\<close> array elements.
\<close>

definition SHIFT_BIT :: "int \<Rightarrow> int \<Rightarrow> u8 list" where
  "SHIFT_BIT r v = [word_of_int (drop_bit 8 (v AND 0x0100) OR push_bit 1 r),
                    word_of_int (v AND 0xff)]"

text \<open>The arguments of the 29 macro calls in the table of \<open>InitWM8960\<close>, in order.\<close>

definition WM8960_regs :: "(int \<times> int) list" where
  "WM8960_regs =
     [(15, 0x000),
      (25, 0x1FC), (26, 0x1F9), (47, 0x03C),
      (4, 0x001), (52, 0x027), (53, 0x086), (54, 0x0C2), (55, 0x026),
      (5, 0x000), (7, 0x002),
      (20, 0x0F9), (17, 0x1FB), (18, 0x000), (19, 0x032),
      (2, 0x16F), (3, 0x16F),
      (40, 0x17F), (41, 0x178), (51, 0x08D),
      (0, 0x13F), (1, 0x13F),
      (32, 0x138), (33, 0x138),
      (49, 0x0F7), (10, 0x1FF), (11, 0x1FF), (34, 0x100), (37, 0x100)]"

definition initBytes_WM8960 :: "u8 list list" where
  "initBytes_WM8960 = map (\<lambda>(r, v). SHIFT_BIT r v) WM8960_regs"

definition InitWM8960 :: "env \<Rightarrow> u8 \<Rightarrow> device \<Rightarrow> bool \<times> device" where
  "InitWM8960 env ucI2CAddress s = WriteCommands env ucI2CAddress initBytes_WM8960 s"

subsection \<open>Start, Cancel, IsActive\<close>

text \<open>
  The body of the block "optional DAC init via I2C" (lines 167 to 200). The first
  component is FALSE where the source returns FALSE from \<open>Start\<close>.
\<close>

definition Start_DACInit :: "env \<Rightarrow> device \<Rightarrow> bool \<times> device" where
  "Start_DACInit env s =
     (if m_ucI2CAddress s \<noteq> 0 then
        (if m_ucI2CAddress s \<noteq> 0x1A then
           (let (ok, s1) = InitPCM51xx env (m_ucI2CAddress s) s
            in if \<not> ok then (False, s1\<lparr>m_bError := True\<rparr>)
               else (True, s1\<lparr>m_bI2CInited := True\<rparr>))
         else
           (let (ok, s1) = InitWM8960 env (m_ucI2CAddress s) s
            in if \<not> ok then (False, s1\<lparr>m_bError := True\<rparr>)
               else (True, s1\<lparr>m_bI2CInited := True\<rparr>)))
      else
        (let (ok1, s1) = InitPCM51xx env 0x4C s;
             s3 = (if \<not> ok1 then
                     (let (ok2, s2) = InitPCM51xx env 0x4D s1
                      in if \<not> ok2 then snd (InitWM8960 env 0x1A s2) else s2)
                   else s1)
         in (True, s3\<lparr>m_bI2CInited := True\<rparr>)))"

text \<open>The block "enable I2S DMA operation" (lines 204 to 224).\<close>

definition Start_EnableDMA :: "device \<Rightarrow> device" where
  "Start_EnableDMA s =
     (let s = emit PeripheralEntry s;
          s = (if m_nChunkSize s < 64 then
                 (let s = (if m_DeviceMode s \<noteq> DeviceModeRXOnly
                           then write32 ARM_PCM_DREQ_A
                                  ((read32 s ARM_PCM_DREQ_A AND NOT DREQ_A_TX__MASK)
                                   OR push_bit DREQ_A_TX__SHIFT 0x18) s
                           else s)
                  in (if m_DeviceMode s \<noteq> DeviceModeTXOnly
                      then write32 ARM_PCM_DREQ_A
                             ((read32 s ARM_PCM_DREQ_A AND NOT DREQ_A_RX__MASK)
                              OR push_bit DREQ_A_RX__SHIFT 0x18) s
                      else s))
               else s);
          s = write32 ARM_PCM_CS_A (read32 s ARM_PCM_CS_A OR CS_A_DMAEN) s
      in emit PeripheralExit s)"

text \<open>
  The rest of \<open>Start\<close> (lines 226 to 259): start the DMA buffers of each direction of
  the mode, then enable TX and/or RX. \<open>nTXRXOn\<close> is passed from step to step.
\<close>

definition Start_TXBuffers :: "env \<Rightarrow> u32 \<Rightarrow> device \<Rightarrow> bool \<times> u32 \<times> device" where
  "Start_TXBuffers env nTXRXOn s =
     (if m_DeviceMode s \<noteq> DeviceModeRXOnly then
        (let ok = TXBuffers_Start env (trace s);
             s' = emit (TXBuffersStart TXCompleted ok) s
         in if \<not> ok then (False, nTXRXOn, s'\<lparr>m_bError := True\<rparr>)
            else (True, nTXRXOn OR CS_A_TXON, s'))
      else (True, nTXRXOn, s))"

definition Start_RXBuffers :: "env \<Rightarrow> u32 \<Rightarrow> device \<Rightarrow> bool \<times> u32 \<times> device" where
  "Start_RXBuffers env nTXRXOn s =
     (if m_DeviceMode s \<noteq> DeviceModeTXOnly then
        (let ok = RXBuffers_Start env (trace s);
             s' = emit (RXBuffersStart RXCompleted ok) s
         in if \<not> ok then (False, nTXRXOn, s'\<lparr>m_bError := True\<rparr>)
            else (True, nTXRXOn OR CS_A_RXON OR CS_A_RXSEX, s'))
      else (True, nTXRXOn, s))"

definition Start_EnableTXRX :: "u32 \<Rightarrow> device \<Rightarrow> device" where
  "Start_EnableTXRX nTXRXOn s =
     emit PeripheralExit
       (write32 ARM_PCM_CS_A (read32 (emit PeripheralEntry s) ARM_PCM_CS_A OR nTXRXOn)
          (emit PeripheralEntry s))"

text \<open>
  Lines 203 to 259 in one piece: what \<open>Start\<close> does once the codec step is behind it.
\<close>

definition Start_Streaming :: "env \<Rightarrow> device \<Rightarrow> bool \<times> device" where
  "Start_Streaming env s1 =
     (let s2 = Start_EnableDMA s1;
          (okTX, nTXRXOn, s3) = Start_TXBuffers env 0 s2
      in if \<not> okTX then (False, s3)
         else
           (let (okRX, nTXRXOn, s4) = Start_RXBuffers env nTXRXOn s3
            in if \<not> okRX then (False, s4)
               else (True, Start_EnableTXRX nTXRXOn s4)))"

definition Start :: "env \<Rightarrow> device \<Rightarrow> bool \<times> device" where
  "Start env s =
     (if m_bError s then (False, s)
      else
        (let (go, s1) =
               (if m_DeviceMode s \<noteq> DeviceModeRXOnly \<and> m_pI2CMaster s \<and> \<not> m_bI2CInited s
                then Start_DACInit env s else (True, s))
         in if \<not> go then (False, s1)
            else Start_Streaming env s1))"

definition Cancel :: "device \<Rightarrow> device" where
  "Cancel s =
     (let s = (if m_DeviceMode s \<noteq> DeviceModeRXOnly then emit TXBuffersCancel s else s)
      in (if m_DeviceMode s \<noteq> DeviceModeTXOnly then emit RXBuffersCancel s else s))"

definition IsActive :: "env \<Rightarrow> device \<Rightarrow> bool" where
  "IsActive env s =
     (if m_DeviceMode s \<noteq> DeviceModeRXOnly \<and> TXBuffers_IsActive env (trace s) then True
      else if m_DeviceMode s \<noteq> DeviceModeTXOnly \<and> RXBuffers_IsActive env (trace s) then True
      else False)"

subsection \<open>Completion handlers\<close>

text \<open>
  The handlers are static; \<open>pParam\<close> is the object. The sample buffer is handed on to
  \<open>GetChunk\<close> and \<open>PutChunk\<close> of the base class and is not looked at here.
\<close>

definition TXCompletedHandler :: "env \<Rightarrow> bool \<Rightarrow> u32 \<Rightarrow> device \<Rightarrow> u32 \<times> device" where
  "TXCompletedHandler env bStatus nChunkSize pThis =
     (if \<not> bStatus then (0, pThis\<lparr>m_bError := True\<rparr>)
      else
        (let r = GetChunk_result env (trace pThis) nChunkSize
         in (r, emit (GetChunk nChunkSize r) pThis)))"

definition RXCompletedHandler :: "bool \<Rightarrow> u32 \<Rightarrow> device \<Rightarrow> u32 \<times> device" where
  "RXCompletedHandler bStatus nChunkSize pThis =
     (if \<not> bStatus then (0, pThis\<lparr>m_bError := True\<rparr>)
      else (0, emit (PutChunk nChunkSize) pThis))"

subsection \<open>The life of an object\<close>

text \<open>
  After construction an object sees any sequence of calls of its public methods and of
  its two completion handlers (invoked by the DMA buffers with a status and a chunk
  size).
\<close>

datatype call =
    CallStart
  | CallCancel
  | CallIsActive
  | CallTXCompleted bool u32
  | CallRXCompleted bool u32

fun step :: "env \<Rightarrow> call \<Rightarrow> device \<Rightarrow> device" where
  "step env CallStart s = snd (Start env s)"
| "step env CallCancel s = Cancel s"
| "step env CallIsActive s = s"
| "step env (CallTXCompleted bStatus n) s = snd (TXCompletedHandler env bStatus n s)"
| "step env (CallRXCompleted bStatus n) s = snd (RXCompletedHandler bStatus n s)"

fun run :: "env \<Rightarrow> call list \<Rightarrow> device \<Rightarrow> device" where
  "run env [] s = s"
| "run env (c # cs) s = run env cs (step env c s)"

section \<open>Observations on the log\<close>

text \<open>
  The claims speak about what an object does to its collaborators. These functions read
  that off a list of events: which events are I2C writes, DMA starts, cancel requests,
  and which values were written to the control and status register.
\<close>

fun is_I2CWrite :: "event \<Rightarrow> bool" where
  "is_I2CWrite (I2CWrite a c r) = True"
| "is_I2CWrite _ = False"

fun is_ClockStart :: "event \<Rightarrow> bool" where
  "is_ClockStart (ClockStart i f m) = True"
| "is_ClockStart _ = False"

fun is_DREQ_write :: "event \<Rightarrow> bool" where
  "is_DREQ_write (Write32 r v) = (r = ARM_PCM_DREQ_A)"
| "is_DREQ_write _ = False"

fun cs_write_of :: "event \<Rightarrow> u32 list" where
  "cs_write_of (Write32 r v) = (if r = ARM_PCM_CS_A then [v] else [])"
| "cs_write_of _ = []"

definition cs_writes :: "event list \<Rightarrow> u32 list" where
  "cs_writes es = concat (map cs_write_of es)"

fun is_dma_start :: "event \<Rightarrow> bool" where
  "is_dma_start (TXBuffersStart h ok) = True"
| "is_dma_start (RXBuffersStart h ok) = True"
| "is_dma_start _ = False"

fun is_failed_start :: "event \<Rightarrow> bool" where
  "is_failed_start (TXBuffersStart h ok) = (\<not> ok)"
| "is_failed_start (RXBuffersStart h ok) = (\<not> ok)"
| "is_failed_start _ = False"

fun is_cancel :: "event \<Rightarrow> bool" where
  "is_cancel TXBuffersCancel = True"
| "is_cancel RXBuffersCancel = True"
| "is_cancel _ = False"

text \<open>An event that registers the RX completion handler with a DMA buffer pair.\<close>

fun rx_registration :: "event \<Rightarrow> bool" where
  "rx_registration (RXBuffersStart h ok) = True"
| "rx_registration (TXBuffersStart h ok) = (h = RXCompleted)"
| "rx_registration _ = False"

text \<open>An event on a given GPIO pin object: the pin is assigned or its mode is set.\<close>

fun on_pin :: "pin \<Rightarrow> event \<Rightarrow> bool" where
  "on_pin p (AssignPin q n) = (q = p)"
| "on_pin p (SetMode q m) = (q = p)"
| "on_pin p _ = False"

text \<open>
  \<open>transactions a cmds es ok\<close>: the events \<open>es\<close> are one run through the command table
  \<open>cmds\<close> at bus address \<open>a\<close>. The k-th event is the write of the k-th command of the
  table to \<open>a\<close>; every write but the last transferred 2 bytes; the run is \<open>ok\<close> when the
  whole table was written, and otherwise it stops with the first write that did not
  transfer 2 bytes.
\<close>

fun transactions :: "u8 \<Rightarrow> u8 list list \<Rightarrow> event list \<Rightarrow> bool \<Rightarrow> bool" where
  "transactions a [] es ok = (es = [] \<and> ok)"
| "transactions a (c # cs) [] ok = False"
| "transactions a (c # cs) (e # es) ok =
     (case e of
        I2CWrite a' c' r \<Rightarrow>
          a' = a \<and> c' = c \<and> (if r = 2 then transactions a cs es ok else es = [] \<and> \<not> ok)
      | _ \<Rightarrow> False)"

text \<open>
  The enable bits \<open>Start\<close> ORs into the control register for a mode, and the DMA starts
  a successful \<open>Start\<close> performs for it.
\<close>

definition nTXRXOn_of :: "TDeviceMode \<Rightarrow> u32" where
  "nTXRXOn_of m = (if m \<noteq> DeviceModeRXOnly then CS_A_TXON else 0)
                   OR (if m \<noteq> DeviceModeTXOnly then CS_A_RXON OR CS_A_RXSEX else 0)"

definition expected_starts :: "TDeviceMode \<Rightarrow> event list" where
  "expected_starts m = (if m \<noteq> DeviceModeRXOnly then [TXBuffersStart TXCompleted True] else [])
                   @ (if m \<noteq> DeviceModeTXOnly then [RXBuffersStart RXCompleted True] else [])"

text \<open>
  The events a call on an object in state \<open>s\<close> can produce, used as an invariant of the
  life of an object: the constructor parameters never change, and the two flags are only
  ever set.
\<close>

definition same_config :: "device \<Rightarrow> device \<Rightarrow> bool" where
  "same_config s s' \<longleftrightarrow>
     m_DeviceMode s' = m_DeviceMode s \<and> m_pI2CMaster s' = m_pI2CMaster s
     \<and> m_bSlave s' = m_bSlave s \<and> m_nChunkSize s' = m_nChunkSize s
     \<and> m_ucI2CAddress s' = m_ucI2CAddress s \<and> m_nSampleRate s' = m_nSampleRate s"

fun may_emit :: "device \<Rightarrow> event \<Rightarrow> bool" where
  "may_emit s PeripheralEntry = True"
| "may_emit s PeripheralExit = True"
| "may_emit s (Write32 r v) = (r = ARM_PCM_CS_A \<or> r = ARM_PCM_DREQ_A)"
| "may_emit s (I2CWrite a c r) =
     (m_DeviceMode s \<noteq> DeviceModeRXOnly \<and> m_pI2CMaster s \<and> \<not> m_bI2CInited s \<and> \<not> m_bError s)"
| "may_emit s (TXBuffersStart h ok) = (h = TXCompleted \<and> m_DeviceMode s \<noteq> DeviceModeRXOnly)"
| "may_emit s (RXBuffersStart h ok) = (h = RXCompleted \<and> m_DeviceMode s \<noteq> DeviceModeTXOnly)"
| "may_emit s TXBuffersCancel = (m_DeviceMode s \<noteq> DeviceModeRXOnly)"
| "may_emit s RXBuffersCancel = (m_DeviceMode s \<noteq> DeviceModeTXOnly)"
| "may_emit s (GetChunk n r) = True"
| "may_emit s (PutChunk n) = True"
| "may_emit s _ = False"

text \<open>
  The events of construction and destruction for a mode: register writes, delays, the
  device name service, the clock stop, and pin operations on the pins that mode uses (the
  data-in pin unless TX-only, the data-out pin unless RX-only).
\<close>

fun pin_used :: "TDeviceMode \<Rightarrow> pin \<Rightarrow> bool" where
  "pin_used m m_PCMDINPin = (m \<noteq> DeviceModeTXOnly)"
| "pin_used m m_PCMDOUTPin = (m \<noteq> DeviceModeRXOnly)"
| "pin_used m _ = True"

fun setup_event :: "TDeviceMode \<Rightarrow> event \<Rightarrow> bool" where
  "setup_event m PeripheralEntry = True"
| "setup_event m PeripheralExit = True"
| "setup_event m (Write32 r v) = True"
| "setup_event m (usDelay n) = True"
| "setup_event m (AssignPin p n) = pin_used m p"
| "setup_event m (SetMode p g) = pin_used m p"
| "setup_event m ClockStop = True"
| "setup_event m (AddDevice n) = True"
| "setup_event m (RemoveDevice n) = True"
| "setup_event m _ = False"

section \<open>Concrete environments and a concrete object\<close>

text \<open>
  Used to run the model on explicit inputs: an environment where every collaborator
  succeeds, one whose I2C bus answers no write, one whose RX DMA buffers cannot be started,
  one whose I2C bus stops answering after two writes; and an object as the constructor
  leaves it for duplex mode, 48000 Hz, chunk size 32, master role, an I2C master and
  address 0 (probe), with an empty log.
\<close>

definition env_ok :: env where
  "env_ok = \<lparr>GetGPIOClockSourceRate = 500000000, GetMachineModel = MachineModelOther,
              I2C_Write = (\<lambda>t a bs. 2),
              TXBuffers_Start = (\<lambda>t. True), RXBuffers_Start = (\<lambda>t. True),
              TXBuffers_IsActive = (\<lambda>t. False), RXBuffers_IsActive = (\<lambda>t. False),
              GetChunk_result = (\<lambda>t n. n)\<rparr>"

definition env_dead_bus :: env where
  "env_dead_bus = env_ok\<lparr>I2C_Write := (\<lambda>t a bs. - 1)\<rparr>"

definition env_rx_fails :: env where
  "env_rx_fails = env_ok\<lparr>RXBuffers_Start := (\<lambda>t. False)\<rparr>"

definition env_bus_breaks :: env where
  "env_bus_breaks =
     env_ok\<lparr>I2C_Write := (\<lambda>t a bs. if length (filter is_I2CWrite t) < 2 then 2 else 0)\<rparr>"

definition dev0 :: device where
  "dev0 = \<lparr>m_nSampleRate = 48000, m_nChunkSize = 32, m_bSlave = False, m_pI2CMaster = True,
           m_ucI2CAddress = 0, m_DeviceMode = DeviceModeTXRX, m_bI2CInited = False,
           m_bError = False, regs = (\<lambda>r. 0), trace = []\<rparr>"

section \<open>The clock divider as the specification words it\<close>

text \<open>
  The specification describes the divider over exact integers: \<open>B = F / (W \<times> C)\<close> with
  \<open>W \<times> C = 64\<close>, \<open>DivI = B / S\<close>, \<open>R = B mod S\<close>, \<open>DivF = round (R \<times> 4096 / S)\<close>, and a carry
  into \<open>DivI\<close> when the rounding gives more than 4095. These definitions follow that
  wording, with \<open>round\<close> the rounding of real numbers to the nearest integer; they are
  compared with the code below.
\<close>

definition spec_B :: "nat \<Rightarrow> nat" where
  "spec_B F = F div (32 * 2)"

definition spec_DivF :: "nat \<Rightarrow> nat \<Rightarrow> nat" where
  "spec_DivF F S = nat (round (real (spec_B F mod S * 4096) / real S))"

definition spec_Divider :: "nat \<Rightarrow> nat \<Rightarrow> nat \<times> nat" where
  "spec_Divider F S =
     (if spec_DivF F S > 4095 then (spec_B F div S + 1, 0)
      else (spec_B F div S, spec_DivF F S))"

section \<open>Arithmetic of the clock divider\<close>

lemma round_div_nat:
  fixes a S :: nat
  assumes "0 < S"
  shows "nat (round (real a / real S)) = (a + S div 2) div S"
proof -
  have "real a / real S + 1 / 2 = real (2 * a + S) / real (2 * S)"
    using assms by (simp add: field_simps)
  then have "round (real a / real S) = \<lfloor>real (2 * a + S) / real (2 * S)\<rfloor>"
    by (simp add: round_def)
  also have "\<dots> = int ((2 * a + S) div (2 * S))"
    by (simp only: floor_divide_of_nat_eq)
  also have "(2 * a + S) div (2 * S) = (a + S div 2) div S"
    by (simp add: div_mult2_eq)
  finally show ?thesis by simp
qed

lemma unat_nTemp: "unat (nTemp F S) = unat F div 64 mod unat S"
  by (simp add: nTemp_def CHANLEN_def CHANS_def unat_div unat_mod)

lemma unat_nDivI_init: "unat (nDivI_init F S) = unat F div 64 div unat S"
  by (simp add: nDivI_init_def CHANLEN_def CHANS_def unat_div)

text \<open>Within the asserted range of the sample rate the 32-bit arithmetic does not wrap.\<close>

lemma unat_nDivF_init:
  assumes "8000 \<le> S" "S \<le> 192000"
  shows "unat (nDivF_init F S) = (unat F div 64 mod unat S * 4096 + unat S div 2) div unat S"
proof -
  have S: "8000 \<le> unat S" "unat S \<le> 192000"
    using assms by (simp_all add: word_le_nat_alt)
  have T: "unat (nTemp F S) < unat S"
    using S by (simp add: unat_nTemp)
  have "unat (nTemp F S) * 4096 + unat S div 2 < 2 ^ 32"
    using S T by simp
  then have "unat (nTemp F S * 4096 + S div 2) = unat (nTemp F S) * 4096 + unat S div 2"
    by (simp add: unat_word_ariths unat_div)
  then show ?thesis
    by (simp add: nDivF_init_def unat_div unat_nTemp)
qed

lemma nDivF_le_4096:
  fixes R S :: nat
  assumes "R < S"
  shows "(R * 4096 + S div 2) div S \<le> 4096"
proof -
  have "R * 4096 + S div 2 < S * 4097"
    using assms by simp
  then have "(R * 4096 + S div 2) div S < 4097"
    using assms by (simp add: div_less_iff_less_mult mult.commute)
  then show ?thesis by simp
qed

lemma ClockDivider_spec:
  assumes "0 < F" "F mod 64 = 0" "8000 \<le> S" "S \<le> 192000"
  shows "\<exists>DivI DivF. ClockDivider F S = Inr (DivI, DivF)
           \<and> (unat DivI, unat DivF) = spec_Divider (unat F) (unat S)"
proof -
  have S: "8000 \<le> unat S" "unat S \<le> 192000"
    using assms by (simp_all add: word_le_nat_alt)
  let ?R = "unat F div 64 mod unat S"
  let ?q = "(?R * 4096 + unat S div 2) div unat S"
  have R: "?R < unat S" using S by simp
  have q: "unat (nDivF_init F S) = ?q"
    using assms by (simp add: unat_nDivF_init)
  have q4096: "?q \<le> 4096" using R by (rule nDivF_le_4096)
  have sp: "spec_DivF (unat F) (unat S) = ?q"
    using S round_div_nat [of "unat S" "?R * 4096"] by (simp add: spec_DivF_def spec_B_def)
  have le: "nDivF_init F S \<le> 4096"
    using q q4096 by (simp add: word_le_nat_alt)
  have gt: "(nDivF_init F S > 4095) = (?q > 4095)"
    using q by (simp add: word_less_nat_alt)
  have "unat F < 2 ^ 32" using unsigned_less [of F] by simp
  then have "unat F div 64 div unat S < 2 ^ 32 - 1"
    using S by (simp add: div_less_iff_less_mult)
  then have I1: "unat (nDivI_init F S + 1) = unat F div 64 div unat S + 1"
    by (simp add: unat_word_ariths unat_nDivI_init)
  show ?thesis
    using assms le gt q sp I1
    by (auto simp: ClockDivider_def Let_def spec_Divider_def spec_B_def unat_nDivI_init
                   CHANLEN_def CHANS_def word_neq_0_conv)
qed

text \<open>The rounded quotient is within half a unit of the exact one.\<close>

lemma round_err:
  fixes R S :: nat
  assumes "0 < S"
  shows "2 * \<bar>int ((R * 4096 + S div 2) div S) * int S - int R * 4096\<bar> \<le> int S"
proof -
  define h where "h = S div 2"
  define q where "q = (R * 4096 + h) div S"
  define r where "r = (R * 4096 + h) mod S"
  have "R * 4096 + h = q * S + r"
    unfolding q_def r_def by simp
  then have "int (R * 4096 + h) = int (q * S + r)"
    by (rule arg_cong)
  then have eq: "int q * int S - int R * 4096 = int h - int r"
    by simp
  have "2 * h \<le> S" unfolding h_def by arith
  moreover have "S \<le> 2 * h + 1" unfolding h_def by arith
  moreover have "r < S" using assms unfolding r_def by simp
  ultimately have "2 * \<bar>int h - int r\<bar> \<le> int S"
    by (cases "r \<le> h") simp_all
  then have "2 * \<bar>int q * int S - int R * 4096\<bar> \<le> int S"
    by (simp only: eq)
  then show ?thesis
    unfolding q_def h_def .
qed

section \<open>The divider on the example of the specification\<close>

text \<open>
  Claim C3, as the code has it. For a reference frequency of 19200000 Hz and a sample rate
  of 44100 Hz the constructor computes B = 300000, nDivI = 6, the remainder
  nTemp = 35400 (300000 - 6 * 44100) and nDivF = 3288, and no carry happens.
\<close>

theorem C3_example_values:
  "(19200000::u32) div (CHANLEN * CHANS) = 300000
   \<and> nDivI_init 19200000 44100 = 6
   \<and> nTemp 19200000 44100 = 35400
   \<and> nDivF_init 19200000 44100 = 3288
   \<and> ClockDivider 19200000 44100 = Inr (6, 3288)"
  by (simp add: ClockDivider_def nDivI_init_def nDivF_init_def nTemp_def CHANLEN_def CHANS_def)

text \<open>
  The values of the claim as stated, a remainder of 24600 and a fractional divider of 2285,
  are not the ones the code computes at this input.
\<close>

theorem C3_example_counterexample:
  "nTemp 19200000 44100 \<noteq> 24600
   \<and> nDivF_init 19200000 44100 \<noteq> 2285
   \<and> ClockDivider 19200000 44100 \<noteq> Inr (6, 2285)"
  by (simp add: ClockDivider_def nDivI_init_def nDivF_init_def nTemp_def CHANLEN_def CHANS_def)

section \<open>Bounds on the divider\<close>

text \<open>
  Claim C2, amended. For every reference frequency F divisible by 64 and every sample rate
  S with 8000 \<le> S \<le> 192000 and S \<le> F / 64, the constructor's assertions pass and the
  divider pair satisfies DivI \<ge> 1 and 0 \<le> DivF \<le> 4095; (DivI + DivF/4096) \<times> S differs
  from F/64 by at most S/8192, which is within one part in 4096 of F/64.
\<close>

theorem C2_divider_bounds:
  assumes "F mod 64 = 0" "8000 \<le> S" "S \<le> 192000" "S \<le> F div 64"
  shows "\<exists>DivI DivF. ClockDivider F S = Inr (DivI, DivF)
           \<and> 1 \<le> DivI \<and> 0 \<le> DivF \<and> DivF \<le> 4095
           \<and> 2 * \<bar>(int (unat DivI) * 4096 + int (unat DivF)) * int (unat S)
                   - 4096 * int (unat F div 64)\<bar> \<le> int (unat S)
           \<and> \<bar>(real (unat DivI) + real (unat DivF) / 4096) * real (unat S) - real (unat F) / 64\<bar>
               \<le> (real (unat F) / 64) / 4096"
proof -
  have S: "8000 \<le> unat S" "unat S \<le> 192000"
    using assms by (simp_all add: word_le_nat_alt)
  have BS: "unat S \<le> unat F div 64"
    using assms(4) by (simp add: word_le_nat_alt unat_div)
  then have F0: "0 < F" using S by (auto simp: word_neq_0_conv [symmetric] intro: ccontr)
  from ClockDivider_spec [OF F0 assms(1-3)] obtain DivI DivF where
    cd: "ClockDivider F S = Inr (DivI, DivF)"
    and sp: "(unat DivI, unat DivF) = spec_Divider (unat F) (unat S)" by blast
  let ?B = "unat F div 64"
  let ?R = "?B mod unat S"
  let ?q = "(?R * 4096 + unat S div 2) div unat S"
  have q: "spec_DivF (unat F) (unat S) = ?q"
    using S round_div_nat [of "unat S" "?R * 4096"] by (simp add: spec_DivF_def spec_B_def)
  have R: "?R < unat S" using S by simp
  have q4096: "?q \<le> 4096" using R by (rule nDivF_le_4096)
  have I: "1 \<le> ?B div unat S" using BS S
    by (simp add: Suc_le_eq div_greater_zero_iff)
  have err: "2 * \<bar>int ?q * int (unat S) - int ?R * 4096\<bar> \<le> int (unat S)"
    using S by (intro round_err) simp
  have B: "int ?B = int (?B div unat S) * int (unat S) + int ?R"
    by (metis div_mult_mod_eq of_nat_add of_nat_mult)
  have main: "1 \<le> unat DivI \<and> unat DivF \<le> 4095
        \<and> (int (unat DivI) * 4096 + int (unat DivF)) * int (unat S) - 4096 * int ?B
           = int ?q * int (unat S) - int ?R * 4096"
  proof (cases "?q > 4095")
    case True
    then have "?q = 4096" using q4096 by simp
    moreover have "unat DivI = ?B div unat S + 1" "unat DivF = 0"
      using sp True q by (simp_all add: spec_Divider_def spec_B_def)
    ultimately show ?thesis using B by (simp add: algebra_simps)
  next
    case False
    then have "unat DivI = ?B div unat S" "unat DivF = ?q"
      using sp q by (simp_all add: spec_Divider_def spec_B_def)
    then show ?thesis using False I B by (simp add: algebra_simps)
  qed
  have int_bound: "2 * \<bar>(int (unat DivI) * 4096 + int (unat DivF)) * int (unat S)
                   - 4096 * int ?B\<bar> \<le> int (unat S)"
    using main err by simp
  have F64: "real (unat F) / 64 = real ?B"
  proof -
    have "unat (F mod 64) = unat (0::u32)" using assms(1) by simp
    then have "unat F mod 64 = 0" by (simp add: unat_mod)
    then have "unat F = ?B * 64" by presburger
    then have "real (unat F) = real ?B * 64" by (metis of_nat_mult of_nat_numeral)
    then show ?thesis by simp
  qed
  let ?D = "(int (unat DivI) * 4096 + int (unat DivF)) * int (unat S) - 4096 * int ?B"
  define Y where "Y = (real (unat DivI) + real (unat DivF) / 4096) * real (unat S) - real ?B"
  have half: "2 * \<bar>x\<bar> \<le> int s \<Longrightarrow> s \<le> b \<Longrightarrow> \<bar>x\<bar> \<le> int b" for x :: int and s b :: nat
    by linarith
  have "\<bar>?D\<bar> \<le> int ?B" using int_bound BS by (rule half)
  then have "\<bar>real_of_int ?D\<bar> \<le> real ?B"
    by (metis of_int_abs of_int_le_iff of_int_of_nat_eq)
  moreover have "real_of_int ?D = 4096 * Y"
    unfolding Y_def by (simp add: algebra_simps)
  ultimately have "\<bar>4096 * Y\<bar> \<le> real ?B" by simp
  then have "4096 * \<bar>Y\<bar> \<le> real ?B" by (simp add: abs_mult)
  then have "\<bar>Y\<bar> \<le> real ?B / 4096" by simp
  then have "\<bar>(real (unat DivI) + real (unat DivF) / 4096) * real (unat S) - real ?B\<bar>
               \<le> real ?B / 4096"
    unfolding Y_def .
  then show ?thesis
    using cd main int_bound F64 by (auto simp: word_le_nat_alt)
qed

theorem C2_divider_bounds_witness:
  "(19200000::u32) mod 64 = 0 \<and> (8000::u32) \<le> 44100 \<and> (44100::u32) \<le> 192000
   \<and> (44100::u32) \<le> 19200000 div 64
   \<and> (\<exists>DivI DivF. ClockDivider 19200000 44100 = Inr (DivI, DivF)
           \<and> 1 \<le> DivI \<and> 0 \<le> DivF \<and> DivF \<le> 4095
           \<and> 2 * \<bar>(int (unat DivI) * 4096 + int (unat DivF)) * int (unat (44100::u32))
                   - 4096 * int (unat (19200000::u32) div 64)\<bar> \<le> int (unat (44100::u32))
           \<and> \<bar>(real (unat DivI) + real (unat DivF) / 4096) * real (unat (44100::u32))
                 - real (unat (19200000::u32)) / 64\<bar>
               \<le> (real (unat (19200000::u32)) / 64) / 4096)"
proof -
  have h: "(19200000::u32) mod 64 = 0" "(8000::u32) \<le> 44100" "(44100::u32) \<le> 192000"
    "(44100::u32) \<le> 19200000 div 64"
    by simp_all
  from C2_divider_bounds [OF h] h show ?thesis by blast
qed

text \<open>
  The claim as stated, for every F divisible by 64, fails where F / 64 is below the sample
  rate: with F = 64 and S = 8000 all assertions of the constructor pass and the integer
  divider is 0.
\<close>

theorem C2_divider_counterexample:
  "(0::u32) < 64 \<and> (64::u32) mod 64 = 0 \<and> (8000::u32) \<le> 8000 \<and> (8000::u32) \<le> 192000
   \<and> ClockDivider 64 8000 = Inr (0, 1) \<and> \<not> (1::u32) \<le> fst (0, 1)"
  by (simp add: ClockDivider_def nDivI_init_def nDivF_init_def nTemp_def CHANLEN_def CHANS_def)

section \<open>What a call can do: frame lemmas\<close>

lemmas model_defs = Start_def Start_DACInit_def Start_Streaming_def Start_EnableDMA_def
  Start_TXBuffers_def Start_RXBuffers_def Start_EnableTXRX_def InitPCM51xx_def InitWM8960_def
  initBytes_PCM51xx_def initBytes_WM8960_def WM8960_regs_def SHIFT_BIT_def
  emit_def write32_def read32_def Let_def

lemmas fixture_defs = env_ok_def env_dead_bus_def env_rx_fails_def env_bus_breaks_def dev0_def

lemmas prim_defs = emit_def write32_def read32_def

lemma WriteCommands_frame:
  assumes "\<forall>c\<in>set cmds. length c = 2"
  shows "\<exists>es. snd (WriteCommands env a cmds s) = s\<lparr>trace := trace s @ es\<rparr>
           \<and> transactions a cmds es (fst (WriteCommands env a cmds s))"
  using assms
proof (induction cmds arbitrary: s)
  case Nil
  then show ?case by simp
next
  case (Cons c cmds)
  let ?r = "I2C_Write env (trace s) a c"
  let ?s' = "emit (I2CWrite a c ?r) s"
  show ?case
  proof (cases "?r = 2")
    case True
    from Cons.prems have "\<forall>c\<in>set cmds. length c = 2" by simp
    from Cons.IH [OF this, of ?s'] obtain es where
      es: "snd (WriteCommands env a cmds ?s') = ?s'\<lparr>trace := trace ?s' @ es\<rparr>"
          "transactions a cmds es (fst (WriteCommands env a cmds ?s'))" by blast
    have "snd (WriteCommands env a (c # cmds) s) = s\<lparr>trace := trace s @ (I2CWrite a c ?r # es)\<rparr>"
      using True Cons.prems es(1) by (simp add: Let_def emit_def)
    moreover have "transactions a (c # cmds) (I2CWrite a c ?r # es) (fst (WriteCommands env a (c # cmds) s))"
      using True Cons.prems es(2) by (simp add: Let_def)
    ultimately show ?thesis by blast
  next
    case False
    have "snd (WriteCommands env a (c # cmds) s) = s\<lparr>trace := trace s @ [I2CWrite a c ?r]\<rparr>"
      using False Cons.prems by (simp add: Let_def emit_def)
    moreover have "transactions a (c # cmds) [I2CWrite a c ?r] (fst (WriteCommands env a (c # cmds) s))"
      using False Cons.prems by (simp add: Let_def)
    ultimately show ?thesis by blast
  qed
qed

lemma transactions_I2C: "transactions a cmds es ok \<Longrightarrow> \<forall>e\<in>set es. is_I2CWrite e"
  by (induction a cmds es ok rule: transactions.induct) (auto split: event.splits if_splits)

lemma PCM51xx_len: "\<forall>c\<in>set initBytes_PCM51xx. length c = 2"
  by (simp add: initBytes_PCM51xx_def)

lemma WM8960_len: "\<forall>c\<in>set initBytes_WM8960. length c = 2"
  by (simp add: initBytes_WM8960_def WM8960_regs_def SHIFT_BIT_def)

lemma InitPCM51xx_frame:
  "\<exists>es. snd (InitPCM51xx env a s) = s\<lparr>trace := trace s @ es\<rparr>
        \<and> transactions a initBytes_PCM51xx es (fst (InitPCM51xx env a s))"
  unfolding InitPCM51xx_def using PCM51xx_len by (rule WriteCommands_frame)

lemma InitWM8960_frame:
  "\<exists>es. snd (InitWM8960 env a s) = s\<lparr>trace := trace s @ es\<rparr>
        \<and> transactions a initBytes_WM8960 es (fst (InitWM8960 env a s))"
  unfolding InitWM8960_def using WM8960_len by (rule WriteCommands_frame)

lemma DACInit_fixed_B:
  assumes "m_ucI2CAddress s = 0x1A"
  shows "\<exists>es ok. transactions 0x1A initBytes_WM8960 es ok
           \<and> Start_DACInit env s =
               (ok, if ok then s\<lparr>trace := trace s @ es, m_bI2CInited := True\<rparr>
                    else s\<lparr>trace := trace s @ es, m_bError := True\<rparr>)"
proof -
  from InitWM8960_frame [of env "0x1A" s] obtain es where
    es: "snd (InitWM8960 env 0x1A s) = s\<lparr>trace := trace s @ es\<rparr>"
        "transactions 0x1A initBytes_WM8960 es (fst (InitWM8960 env 0x1A s))" by blast
  have "Start_DACInit env s =
          (fst (InitWM8960 env 0x1A s),
           if fst (InitWM8960 env 0x1A s) then s\<lparr>trace := trace s @ es, m_bI2CInited := True\<rparr>
           else s\<lparr>trace := trace s @ es, m_bError := True\<rparr>)"
    using assms es(1) by (simp add: Start_DACInit_def split_beta)
  with es(2) show ?thesis by blast
qed

lemma DACInit_fixed_A:
  assumes "m_ucI2CAddress s \<noteq> 0" "m_ucI2CAddress s \<noteq> 0x1A"
  shows "\<exists>es ok. transactions (m_ucI2CAddress s) initBytes_PCM51xx es ok
           \<and> Start_DACInit env s =
               (ok, if ok then s\<lparr>trace := trace s @ es, m_bI2CInited := True\<rparr>
                    else s\<lparr>trace := trace s @ es, m_bError := True\<rparr>)"
proof -
  let ?a = "m_ucI2CAddress s"
  from InitPCM51xx_frame [of env ?a s] obtain es where
    es: "snd (InitPCM51xx env ?a s) = s\<lparr>trace := trace s @ es\<rparr>"
        "transactions ?a initBytes_PCM51xx es (fst (InitPCM51xx env ?a s))" by blast
  have "Start_DACInit env s =
          (fst (InitPCM51xx env ?a s),
           if fst (InitPCM51xx env ?a s) then s\<lparr>trace := trace s @ es, m_bI2CInited := True\<rparr>
           else s\<lparr>trace := trace s @ es, m_bError := True\<rparr>)"
    using assms es(1) by (simp add: Start_DACInit_def split_beta)
  with es(2) show ?thesis by blast
qed

lemma DACInit_probe:
  assumes "m_ucI2CAddress s = 0"
  shows "\<exists>e1 e2 e3 ok1 ok2 ok3.
           transactions 0x4C initBytes_PCM51xx e1 ok1
           \<and> (if ok1 then e2 = [] \<and> e3 = []
              else transactions 0x4D initBytes_PCM51xx e2 ok2
                   \<and> (if ok2 then e3 = [] else transactions 0x1A initBytes_WM8960 e3 ok3))
           \<and> Start_DACInit env s = (True, s\<lparr>trace := trace s @ e1 @ e2 @ e3, m_bI2CInited := True\<rparr>)"
proof -
  from InitPCM51xx_frame [of env "0x4C" s] obtain e1 where
    e1: "snd (InitPCM51xx env 0x4C s) = s\<lparr>trace := trace s @ e1\<rparr>"
        "transactions 0x4C initBytes_PCM51xx e1 (fst (InitPCM51xx env 0x4C s))" by blast
  let ?s1 = "s\<lparr>trace := trace s @ e1\<rparr>"
  from InitPCM51xx_frame [of env "0x4D" ?s1] obtain e2 where
    e2: "snd (InitPCM51xx env 0x4D ?s1) = ?s1\<lparr>trace := trace ?s1 @ e2\<rparr>"
        "transactions 0x4D initBytes_PCM51xx e2 (fst (InitPCM51xx env 0x4D ?s1))" by blast
  let ?s2 = "s\<lparr>trace := trace s @ e1 @ e2\<rparr>"
  have s2: "snd (InitPCM51xx env 0x4D ?s1) = ?s2" using e2(1) by simp
  from InitWM8960_frame [of env "0x1A" ?s2] obtain e3 where
    e3: "snd (InitWM8960 env 0x1A ?s2) = ?s2\<lparr>trace := trace ?s2 @ e3\<rparr>"
        "transactions 0x1A initBytes_WM8960 e3 (fst (InitWM8960 env 0x1A ?s2))" by blast
  let ?ok1 = "fst (InitPCM51xx env 0x4C s)"
  let ?ok2 = "fst (InitPCM51xx env 0x4D ?s1)"
  let ?ok3 = "fst (InitWM8960 env 0x1A ?s2)"
  show ?thesis
  proof (cases ?ok1)
    case True
    then have "Start_DACInit env s = (True, s\<lparr>trace := trace s @ e1 @ [] @ [], m_bI2CInited := True\<rparr>)"
      using assms e1(1) by (simp add: Start_DACInit_def split_beta)
    with e1(2) True show ?thesis by (intro exI [of _ e1] exI [of _ "[]"] exI [of _ True]) simp
  next
    case f1: False
    show ?thesis
    proof (cases ?ok2)
      case True
      then have "Start_DACInit env s = (True, s\<lparr>trace := trace s @ e1 @ e2 @ [], m_bI2CInited := True\<rparr>)"
        using assms f1 e1(1) s2 by (simp add: Start_DACInit_def split_beta)
      with e1(2) e2(2) f1 True show ?thesis
        by (intro exI [of _ e1] exI [of _ e2] exI [of _ "[]"] exI [of _ False] exI [of _ True]) simp
    next
      case f2: False
      then have "Start_DACInit env s = (True, s\<lparr>trace := trace s @ e1 @ e2 @ e3, m_bI2CInited := True\<rparr>)"
        using assms f1 e1(1) s2 e3(1) by (simp add: Start_DACInit_def split_beta)
      with e1(2) e2(2) e3(2) f1 f2 show ?thesis
        by (intro exI [of _ e1] exI [of _ e2] exI [of _ e3] exI [of _ False] exI [of _ False]
                  exI [of _ ?ok3]) simp
    qed
  qed
qed

lemma EnableDMA_trace:
  "\<exists>d. trace (Start_EnableDMA s) =
          trace s @ PeripheralEntry # d @
            [Write32 ARM_PCM_CS_A (regs s ARM_PCM_CS_A OR CS_A_DMAEN), PeripheralExit]
        \<and> (\<forall>e\<in>set d. is_DREQ_write e)"
  by (cases "m_DeviceMode s") (simp_all add: Start_EnableDMA_def Let_def prim_defs)

lemma EnableDMA_fields:
  "regs (Start_EnableDMA s) ARM_PCM_CS_A = regs s ARM_PCM_CS_A OR CS_A_DMAEN"
  "m_DeviceMode (Start_EnableDMA s) = m_DeviceMode s"
  "m_pI2CMaster (Start_EnableDMA s) = m_pI2CMaster s"
  "m_bSlave (Start_EnableDMA s) = m_bSlave s"
  "m_nChunkSize (Start_EnableDMA s) = m_nChunkSize s"
  "m_ucI2CAddress (Start_EnableDMA s) = m_ucI2CAddress s"
  "m_nSampleRate (Start_EnableDMA s) = m_nSampleRate s"
  "m_bError (Start_EnableDMA s) = m_bError s"
  "m_bI2CInited (Start_EnableDMA s) = m_bI2CInited s"
  by (simp_all add: Start_EnableDMA_def Let_def prim_defs)

lemma TXBuffers_eq:
  "Start_TXBuffers env n s =
     (if m_DeviceMode s = DeviceModeRXOnly then (True, n, s)
      else if TXBuffers_Start env (trace s)
        then (True, n OR CS_A_TXON, s\<lparr>trace := trace s @ [TXBuffersStart TXCompleted True]\<rparr>)
        else (False, n, s\<lparr>trace := trace s @ [TXBuffersStart TXCompleted False], m_bError := True\<rparr>))"
  by (simp add: Start_TXBuffers_def Let_def emit_def)

lemma RXBuffers_eq:
  "Start_RXBuffers env n s =
     (if m_DeviceMode s = DeviceModeTXOnly then (True, n, s)
      else if RXBuffers_Start env (trace s)
        then (True, n OR CS_A_RXON OR CS_A_RXSEX,
              s\<lparr>trace := trace s @ [RXBuffersStart RXCompleted True]\<rparr>)
        else (False, n, s\<lparr>trace := trace s @ [RXBuffersStart RXCompleted False], m_bError := True\<rparr>))"
  by (simp add: Start_RXBuffers_def Let_def emit_def)

lemma EnableTXRX_fields:
  "trace (Start_EnableTXRX n s) =
     trace s @ [PeripheralEntry, Write32 ARM_PCM_CS_A (regs s ARM_PCM_CS_A OR n), PeripheralExit]"
  "regs (Start_EnableTXRX n s) ARM_PCM_CS_A = regs s ARM_PCM_CS_A OR n"
  "m_DeviceMode (Start_EnableTXRX n s) = m_DeviceMode s"
  "m_pI2CMaster (Start_EnableTXRX n s) = m_pI2CMaster s"
  "m_bSlave (Start_EnableTXRX n s) = m_bSlave s"
  "m_nChunkSize (Start_EnableTXRX n s) = m_nChunkSize s"
  "m_ucI2CAddress (Start_EnableTXRX n s) = m_ucI2CAddress s"
  "m_nSampleRate (Start_EnableTXRX n s) = m_nSampleRate s"
  "m_bError (Start_EnableTXRX n s) = m_bError s"
  "m_bI2CInited (Start_EnableTXRX n s) = m_bI2CInited s"
  by (simp_all add: Start_EnableTXRX_def prim_defs)

text \<open>The three outcomes of the streaming part.\<close>

lemma Streaming_cases:
  fixes env s
  defines "s2 \<equiv> Start_EnableDMA s"
  defines "s3 \<equiv> (if m_DeviceMode s = DeviceModeRXOnly then s2
                  else s2\<lparr>trace := trace s2 @ [TXBuffersStart TXCompleted True]\<rparr>)"
  defines "s4 \<equiv> (if m_DeviceMode s = DeviceModeTXOnly then s3
                  else s3\<lparr>trace := trace s3 @ [RXBuffersStart RXCompleted True]\<rparr>)"
  shows "Start_Streaming env s =
     (if m_DeviceMode s \<noteq> DeviceModeRXOnly \<and> \<not> TXBuffers_Start env (trace s2)
      then (False, s2\<lparr>trace := trace s2 @ [TXBuffersStart TXCompleted False], m_bError := True\<rparr>)
      else if m_DeviceMode s \<noteq> DeviceModeTXOnly \<and> \<not> RXBuffers_Start env (trace s3)
      then (False, s3\<lparr>trace := trace s3 @ [RXBuffersStart RXCompleted False], m_bError := True\<rparr>)
      else (True, Start_EnableTXRX (nTXRXOn_of (m_DeviceMode s)) s4))"
proof -
  have m2: "m_DeviceMode s2 = m_DeviceMode s"
    by (simp add: s2_def EnableDMA_fields)
  have m3: "m_DeviceMode s3 = m_DeviceMode s"
    using m2 by (simp add: s3_def)
  show ?thesis
    unfolding Start_Streaming_def Let_def s2_def [symmetric]
    using m2 m3
    by (cases "m_DeviceMode s")
       (simp_all add: TXBuffers_eq RXBuffers_eq s3_def s4_def nTXRXOn_of_def)
qed

lemma DACInit_frame:
  "\<exists>es ok. (\<forall>e\<in>set es. is_I2CWrite e)
      \<and> Start_DACInit env s =
            (ok, if ok then s\<lparr>trace := trace s @ es, m_bI2CInited := True\<rparr>
                 else s\<lparr>trace := trace s @ es, m_bError := True\<rparr>)"
proof (cases "m_ucI2CAddress s = 0")
  case True
  from DACInit_probe [OF True, of env] obtain e1 e2 e3 ok1 ok2 ok3 where
    t: "transactions 0x4C initBytes_PCM51xx e1 ok1"
       "if ok1 then e2 = [] \<and> e3 = []
        else transactions 0x4D initBytes_PCM51xx e2 ok2
             \<and> (if ok2 then e3 = [] else transactions 0x1A initBytes_WM8960 e3 ok3)"
    and r: "Start_DACInit env s = (True, s\<lparr>trace := trace s @ e1 @ e2 @ e3, m_bI2CInited := True\<rparr>)"
    by blast
  have "\<forall>e\<in>set (e1 @ e2 @ e3). is_I2CWrite e"
    using t transactions_I2C by (auto split: if_splits)
  with r show ?thesis by (intro exI [of _ "e1 @ e2 @ e3"] exI [of _ True]) simp
next
  case False
  show ?thesis
  proof (cases "m_ucI2CAddress s = 0x1A")
    case True
    from DACInit_fixed_B [OF True, of env] transactions_I2C show ?thesis by blast
  next
    case F: False
    from DACInit_fixed_A [OF False F, of env] transactions_I2C show ?thesis by blast
  qed
qed

lemma Start_cases:
  assumes "\<not> m_bError s"
  shows "\<exists>i2c s1. trace s1 = trace s @ i2c \<and> (\<forall>e\<in>set i2c. is_I2CWrite e)
           \<and> regs s1 = regs s \<and> same_config s s1
           \<and> (i2c = [] \<or> (m_DeviceMode s \<noteq> DeviceModeRXOnly \<and> m_pI2CMaster s \<and> \<not> m_bI2CInited s))
           \<and> (m_bI2CInited s \<longrightarrow> m_bI2CInited s1)
           \<and> ((Start env s = (False, s1) \<and> m_bError s1)
              \<or> (\<not> m_bError s1 \<and> Start env s = Start_Streaming env s1))"
proof (cases "m_DeviceMode s \<noteq> DeviceModeRXOnly \<and> m_pI2CMaster s \<and> \<not> m_bI2CInited s")
  case True
  from DACInit_frame [of env s] obtain es ok where
    es: "\<forall>e\<in>set es. is_I2CWrite e"
    and r: "Start_DACInit env s =
            (ok, if ok then s\<lparr>trace := trace s @ es, m_bI2CInited := True\<rparr>
                 else s\<lparr>trace := trace s @ es, m_bError := True\<rparr>)" by blast
  show ?thesis
  proof (cases ok)
    case ok: True
    let ?s1 = "s\<lparr>trace := trace s @ es, m_bI2CInited := True\<rparr>"
    have "Start env s = Start_Streaming env ?s1"
      using assms True r ok by (simp add: Start_def)
    then show ?thesis
      using assms es True
      by (intro exI [of _ es] exI [of _ ?s1]) (simp add: same_config_def)
  next
    case nok: False
    let ?s1 = "s\<lparr>trace := trace s @ es, m_bError := True\<rparr>"
    have "Start env s = (False, ?s1)"
      using assms True r nok by (simp add: Start_def)
    then show ?thesis
      using assms es True
      by (intro exI [of _ es] exI [of _ ?s1]) (simp add: same_config_def)
  qed
next
  case False
  then have "Start env s = Start_Streaming env s"
    using assms by (auto simp: Start_def)
  then show ?thesis
    using assms by (intro exI [of _ "[]"] exI [of _ s]) (simp add: same_config_def)
qed

lemma Streaming_frame:
  "\<exists>es. trace (snd (Start_Streaming env s)) = trace s @ es
      \<and> (\<forall>e\<in>set es. may_emit s e \<and> \<not> is_I2CWrite e)
      \<and> same_config s (snd (Start_Streaming env s))
      \<and> m_bI2CInited (snd (Start_Streaming env s)) = m_bI2CInited s
      \<and> (m_bError s \<longrightarrow> m_bError (snd (Start_Streaming env s)))"
proof -
  from EnableDMA_trace [of s] obtain d where
    d: "trace (Start_EnableDMA s) =
          trace s @ PeripheralEntry # d @
            [Write32 ARM_PCM_CS_A (regs s ARM_PCM_CS_A OR CS_A_DMAEN), PeripheralExit]"
       "\<forall>e\<in>set d. is_DREQ_write e" by blast
  have dd: "\<forall>e\<in>set d. may_emit s e \<and> \<not> is_I2CWrite e"
  proof
    fix e assume "e \<in> set d"
    then have "is_DREQ_write e" using d(2) by blast
    then show "may_emit s e \<and> \<not> is_I2CWrite e" by (cases e) simp_all
  qed
  show ?thesis
    using d(1) dd
    by (cases "m_DeviceMode s")
       (auto simp: Streaming_cases EnableTXRX_fields EnableDMA_fields same_config_def)
qed

lemma may_emit_mono:
  assumes "same_config s s'" "m_bI2CInited s \<longrightarrow> m_bI2CInited s'" "m_bError s \<longrightarrow> m_bError s'"
    and "may_emit s' e"
  shows "may_emit s e"
  using assms by (cases e) (auto simp: same_config_def)

lemma Start_frame:
  "\<exists>es. trace (snd (Start env s)) = trace s @ es
      \<and> (\<forall>e\<in>set es. may_emit s e)
      \<and> same_config s (snd (Start env s))
      \<and> (m_bI2CInited s \<longrightarrow> m_bI2CInited (snd (Start env s)))
      \<and> (m_bError s \<longrightarrow> m_bError (snd (Start env s)))"
proof (cases "m_bError s")
  case True
  then show ?thesis by (simp add: Start_def same_config_def)
next
  case False
  from Start_cases [OF False, of env] obtain i2c s1 where
    s1: "trace s1 = trace s @ i2c" "\<forall>e\<in>set i2c. is_I2CWrite e" "regs s1 = regs s"
        "same_config s s1"
        "i2c = [] \<or> (m_DeviceMode s \<noteq> DeviceModeRXOnly \<and> m_pI2CMaster s \<and> \<not> m_bI2CInited s)"
        "m_bI2CInited s \<longrightarrow> m_bI2CInited s1"
    and r: "(Start env s = (False, s1) \<and> m_bError s1)
              \<or> (\<not> m_bError s1 \<and> Start env s = Start_Streaming env s1)" by blast
  have i2c: "\<forall>e\<in>set i2c. may_emit s e"
  proof
    fix e assume e: "e \<in> set i2c"
    then have "is_I2CWrite e" using s1(2) by blast
    moreover have "m_DeviceMode s \<noteq> DeviceModeRXOnly \<and> m_pI2CMaster s \<and> \<not> m_bI2CInited s"
      using e s1(5) by auto
    ultimately show "may_emit s e" using False by (cases e) simp_all
  qed
  from r show ?thesis
  proof
    assume "Start env s = (False, s1) \<and> m_bError s1"
    then show ?thesis using s1 i2c False by (intro exI [of _ i2c]) simp
  next
    assume a: "\<not> m_bError s1 \<and> Start env s = Start_Streaming env s1"
    from Streaming_frame [of env s1] obtain es where
      es: "trace (snd (Start_Streaming env s1)) = trace s1 @ es"
          "\<forall>e\<in>set es. may_emit s1 e \<and> \<not> is_I2CWrite e"
          "same_config s1 (snd (Start_Streaming env s1))"
          "m_bI2CInited (snd (Start_Streaming env s1)) = m_bI2CInited s1" by blast
    have "\<forall>e\<in>set es. may_emit s e"
      using es(2) may_emit_mono [OF s1(4) s1(6)] False by blast
    then show ?thesis
      using a es s1 i2c False
      by (intro exI [of _ "i2c @ es"]) (auto simp: same_config_def)
  qed
qed

lemma step_frame:
  "\<exists>es. trace (step env c s) = trace s @ es
      \<and> (\<forall>e\<in>set es. may_emit s e)
      \<and> same_config s (step env c s)
      \<and> (m_bI2CInited s \<longrightarrow> m_bI2CInited (step env c s))
      \<and> (m_bError s \<longrightarrow> m_bError (step env c s))"
proof (cases c)
  case CallStart
  then show ?thesis using Start_frame [of env s] by simp
next
  case CallCancel
  then show ?thesis
    by (cases "m_DeviceMode s") (simp_all add: Cancel_def Let_def emit_def same_config_def)
next
  case CallIsActive
  then show ?thesis by (simp add: same_config_def)
next
  case (CallTXCompleted b n)
  then show ?thesis
    by (simp add: TXCompletedHandler_def Let_def emit_def same_config_def)
next
  case (CallRXCompleted b n)
  then show ?thesis
    by (simp add: RXCompletedHandler_def Let_def emit_def same_config_def)
qed

lemma same_config_trans: "same_config a b \<Longrightarrow> same_config b c \<Longrightarrow> same_config a c"
  by (simp add: same_config_def)

lemma run_frame:
  "\<exists>es. trace (run env cs s) = trace s @ es
      \<and> (\<forall>e\<in>set es. may_emit s e)
      \<and> same_config s (run env cs s)
      \<and> (m_bI2CInited s \<longrightarrow> m_bI2CInited (run env cs s))
      \<and> (m_bError s \<longrightarrow> m_bError (run env cs s))"
proof (induction cs arbitrary: s)
  case Nil
  then show ?case by (simp add: same_config_def)
next
  case (Cons c cs)
  let ?s' = "step env c s"
  from step_frame [of env c s] obtain e1 where
    e1: "trace ?s' = trace s @ e1" "\<forall>e\<in>set e1. may_emit s e" "same_config s ?s'"
        "m_bI2CInited s \<longrightarrow> m_bI2CInited ?s'" "m_bError s \<longrightarrow> m_bError ?s'" by blast
  from Cons.IH [of ?s'] obtain e2 where
    e2: "trace (run env cs ?s') = trace ?s' @ e2" "\<forall>e\<in>set e2. may_emit ?s' e"
        "same_config ?s' (run env cs ?s')"
        "m_bI2CInited ?s' \<longrightarrow> m_bI2CInited (run env cs ?s')"
        "m_bError ?s' \<longrightarrow> m_bError (run env cs ?s')" by blast
  have "\<forall>e\<in>set e2. may_emit s e"
    using e2(2) may_emit_mono [OF e1(3-5)] by blast
  then show ?case
    using e1 e2 same_config_trans [OF e1(3) e2(3)]
    by (intro exI [of _ "e1 @ e2"]) auto
qed

lemma DREQ_only:
  assumes "\<forall>e\<in>set d. is_DREQ_write e"
  shows "cs_writes d = []" "filter is_dma_start d = []" "filter is_cancel d = []"
    "filter is_failed_start d = []" "filter is_I2CWrite d = []"
proof -
  have "\<forall>e\<in>set d. cs_write_of e = [] \<and> \<not> is_dma_start e \<and> \<not> is_cancel e
          \<and> \<not> is_failed_start e \<and> \<not> is_I2CWrite e"
  proof
    fix e assume "e \<in> set d"
    then have "is_DREQ_write e" using assms by blast
    then show "cs_write_of e = [] \<and> \<not> is_dma_start e \<and> \<not> is_cancel e
          \<and> \<not> is_failed_start e \<and> \<not> is_I2CWrite e"
      by (cases e) simp_all
  qed
  then show "cs_writes d = []" "filter is_dma_start d = []" "filter is_cancel d = []"
    "filter is_failed_start d = []" "filter is_I2CWrite d = []"
    by (simp_all add: cs_writes_def filter_empty_conv)
qed

lemma cs_writes_append [simp]: "cs_writes (a @ b) = cs_writes a @ cs_writes b"
  by (simp add: cs_writes_def)

lemma cs_writes_Cons [simp]: "cs_writes (e # es) = cs_write_of e @ cs_writes es"
  by (simp add: cs_writes_def)

lemma cs_writes_Nil [simp]: "cs_writes [] = []"
  by (simp add: cs_writes_def)

text \<open>Everything the streaming part does, by outcome.\<close>

lemma Streaming_shape:
  fixes env s
  defines "r \<equiv> Start_Streaming env s"
  defines "old \<equiv> regs s ARM_PCM_CS_A"
  shows "\<exists>d starts.
      (\<forall>e\<in>set d. is_DREQ_write e)
    \<and> trace (snd r) =
        trace s @ [PeripheralEntry] @ d @ [Write32 ARM_PCM_CS_A (old OR CS_A_DMAEN), PeripheralExit]
        @ starts
        @ (if fst r
           then [PeripheralEntry,
                 Write32 ARM_PCM_CS_A (old OR CS_A_DMAEN OR nTXRXOn_of (m_DeviceMode s)),
                 PeripheralExit]
           else [])
    \<and> (if fst r then starts = expected_starts (m_DeviceMode s)
       else (m_DeviceMode s \<noteq> DeviceModeRXOnly \<and> starts = [TXBuffersStart TXCompleted False])
          \<or> (m_DeviceMode s \<noteq> DeviceModeTXOnly
              \<and> starts = (if m_DeviceMode s = DeviceModeRXOnly then []
                           else [TXBuffersStart TXCompleted True])
                          @ [RXBuffersStart RXCompleted False]))
    \<and> regs (snd r) ARM_PCM_CS_A =
         (if fst r then old OR CS_A_DMAEN OR nTXRXOn_of (m_DeviceMode s) else old OR CS_A_DMAEN)
    \<and> m_bError (snd r) = (m_bError s \<or> \<not> fst r)"
proof -
  from EnableDMA_trace [of s] obtain d where
    d: "trace (Start_EnableDMA s) =
          trace s @ PeripheralEntry # d @
            [Write32 ARM_PCM_CS_A (regs s ARM_PCM_CS_A OR CS_A_DMAEN), PeripheralExit]"
       "\<forall>e\<in>set d. is_DREQ_write e" by blast
  show ?thesis
    unfolding r_def old_def
    apply (rule exI [of _ d])
    using d
    apply (cases "m_DeviceMode s")
      apply (auto simp: Streaming_cases EnableTXRX_fields EnableDMA_fields expected_starts_def
        word_bw_assocs)
    done
qed

lemma I2C_only:
  assumes "\<forall>e\<in>set es. is_I2CWrite e"
  shows "cs_writes es = []" "filter is_dma_start es = []" "filter is_cancel es = []"
    "filter is_failed_start es = []" "filter is_I2CWrite es = es"
proof -
  have "\<forall>e\<in>set es. cs_write_of e = [] \<and> \<not> is_dma_start e \<and> \<not> is_cancel e
          \<and> \<not> is_failed_start e"
  proof
    fix e assume "e \<in> set es"
    then have "is_I2CWrite e" using assms by blast
    then show "cs_write_of e = [] \<and> \<not> is_dma_start e \<and> \<not> is_cancel e \<and> \<not> is_failed_start e"
      by (cases e) simp_all
  qed
  then show "cs_writes es = []" "filter is_dma_start es = []" "filter is_cancel es = []"
    "filter is_failed_start es = []"
    by (simp_all add: cs_writes_def filter_empty_conv)
  show "filter is_I2CWrite es = es" using assms by (simp add: filter_id_conv)
qed

lemma TXRX_bits_kept:
  "(x OR CS_A_DMAEN) AND (CS_A_TXON OR CS_A_RXON) = x AND (CS_A_TXON OR CS_A_RXON)"
proof -
  have "CS_A_DMAEN AND (CS_A_TXON OR CS_A_RXON) = 0"
    by (simp add: CS_A_DMAEN_def CS_A_TXON_def CS_A_RXON_def)
  then show ?thesis by (simp add: word_ao_dist)
qed

section \<open>Start enables TX and RX only after the DMA buffers run\<close>

text \<open>
  Claim C7. Let \<open>es\<close> be the events of one call of Start. If Start succeeds, \<open>es\<close> ends
  with the write that ORs the TX/RX enable bits into the control register, and the DMA
  starts of every direction of the mode, all successful, come before it; the only earlier
  write to that register is the one setting the DMA enable bit. If a DMA start fails, Start
  returns FALSE with the fault flag set, the failed start is its last action, the only
  write to the control register is the one setting the DMA enable bit (so the TX-on and
  RX-on bits keep the value they had), and no cancel request is made: a TX pipeline
  started before a failing RX start is left running. A Start that returns FALSE without a
  failed DMA start (the fault flag was already set, or the codec bring-up failed at a fixed
  address) writes no register, starts no DMA buffers and leaves the register file as it
  was. So every return of Start is covered: whenever Start returns FALSE the TX-on and
  RX-on bits of the control register are the ones it found, and in a successful Start
  every write to the control register before the final one leaves them as found.
\<close>

theorem C7_enable_after_dma:
  "\<exists>es. trace (snd (Start env s)) = trace s @ es
     \<and> (fst (Start env s) \<longrightarrow>
          (\<exists>pre. es = pre @ [PeripheralEntry,
                            Write32 ARM_PCM_CS_A
                              (regs s ARM_PCM_CS_A OR CS_A_DMAEN OR nTXRXOn_of (m_DeviceMode s)),
                            PeripheralExit]
             \<and> filter is_dma_start pre = expected_starts (m_DeviceMode s)
             \<and> cs_writes pre = [regs s ARM_PCM_CS_A OR CS_A_DMAEN]
             \<and> (\<forall>v\<in>set (cs_writes pre).
                   v AND (CS_A_TXON OR CS_A_RXON)
                   = regs s ARM_PCM_CS_A AND (CS_A_TXON OR CS_A_RXON))))
     \<and> ((\<exists>e\<in>set es. is_failed_start e) \<longrightarrow>
            \<not> fst (Start env s)
          \<and> m_bError (snd (Start env s))
          \<and> is_failed_start (last es)
          \<and> cs_writes es = [regs s ARM_PCM_CS_A OR CS_A_DMAEN]
          \<and> regs (snd (Start env s)) ARM_PCM_CS_A = regs s ARM_PCM_CS_A OR CS_A_DMAEN
          \<and> regs (snd (Start env s)) ARM_PCM_CS_A AND (CS_A_TXON OR CS_A_RXON)
              = regs s ARM_PCM_CS_A AND (CS_A_TXON OR CS_A_RXON)
          \<and> filter is_cancel es = []
          \<and> (filter is_dma_start es = [TXBuffersStart TXCompleted False]
             \<or> filter is_dma_start es = [RXBuffersStart RXCompleted False]
             \<or> filter is_dma_start es =
                 [TXBuffersStart TXCompleted True, RXBuffersStart RXCompleted False]))
     \<and> (\<not> fst (Start env s) \<and> \<not> (\<exists>e\<in>set es. is_failed_start e) \<longrightarrow>
            cs_writes es = []
          \<and> filter is_dma_start es = []
          \<and> filter is_cancel es = []
          \<and> regs (snd (Start env s)) = regs s)
     \<and> (\<not> fst (Start env s) \<longrightarrow>
            regs (snd (Start env s)) ARM_PCM_CS_A AND (CS_A_TXON OR CS_A_RXON)
              = regs s ARM_PCM_CS_A AND (CS_A_TXON OR CS_A_RXON)
          \<and> (cs_writes es = [] \<or> cs_writes es = [regs s ARM_PCM_CS_A OR CS_A_DMAEN]))"
proof (cases "m_bError s")
  case True
  then show ?thesis by (simp add: Start_def)
next
  case False
  from Start_cases [OF False, of env] obtain i2c s1 where
    s1: "trace s1 = trace s @ i2c" "\<forall>e\<in>set i2c. is_I2CWrite e" "regs s1 = regs s"
        "same_config s s1"
    and r: "(Start env s = (False, s1) \<and> m_bError s1)
              \<or> (\<not> m_bError s1 \<and> Start env s = Start_Streaming env s1)" by blast
  note io = I2C_only [OF s1(2)]
  from r show ?thesis
  proof
    assume a: "Start env s = (False, s1) \<and> m_bError s1"
    show ?thesis
      using a s1(1,3) io by (intro exI [of _ i2c]) (simp add: filter_empty_conv)
  next
    assume a: "\<not> m_bError s1 \<and> Start env s = Start_Streaming env s1"
    have m: "m_DeviceMode s1 = m_DeviceMode s" using s1(4) by (simp add: same_config_def)
    let ?r = "Start_Streaming env s1"
    let ?old = "regs s ARM_PCM_CS_A"
    from Streaming_shape [of env s1] obtain d starts where
      d: "\<forall>e\<in>set d. is_DREQ_write e"
      and t: "trace (snd ?r) =
        trace s1 @ [PeripheralEntry] @ d @ [Write32 ARM_PCM_CS_A (?old OR CS_A_DMAEN), PeripheralExit]
        @ starts
        @ (if fst ?r
           then [PeripheralEntry,
                 Write32 ARM_PCM_CS_A (?old OR CS_A_DMAEN OR nTXRXOn_of (m_DeviceMode s)),
                 PeripheralExit]
           else [])"
      and st: "if fst ?r then starts = expected_starts (m_DeviceMode s)
       else (m_DeviceMode s \<noteq> DeviceModeRXOnly \<and> starts = [TXBuffersStart TXCompleted False])
          \<or> (m_DeviceMode s \<noteq> DeviceModeTXOnly
              \<and> starts = (if m_DeviceMode s = DeviceModeRXOnly then []
                           else [TXBuffersStart TXCompleted True])
                          @ [RXBuffersStart RXCompleted False])"
      and rg: "regs (snd ?r) ARM_PCM_CS_A =
         (if fst ?r then ?old OR CS_A_DMAEN OR nTXRXOn_of (m_DeviceMode s) else ?old OR CS_A_DMAEN)"
      and er: "m_bError (snd ?r) = (m_bError s1 \<or> \<not> fst ?r)"
      unfolding m s1(3) by blast
    note dq = DREQ_only [OF d]
    let ?pre = "i2c @ [PeripheralEntry] @ d
                 @ [Write32 ARM_PCM_CS_A (?old OR CS_A_DMAEN), PeripheralExit] @ starts"
    show ?thesis
    proof (cases "fst ?r")
      case True
      let ?es = "?pre @ [PeripheralEntry,
                 Write32 ARM_PCM_CS_A (?old OR CS_A_DMAEN OR nTXRXOn_of (m_DeviceMode s)),
                 PeripheralExit]"
      have starts: "starts = expected_starts (m_DeviceMode s)" using st True by simp
      have nf: "\<not> (\<exists>e\<in>set ?es. is_failed_start e)"
        using io(4) dq(4) starts
        by (auto simp: expected_starts_def filter_empty_conv)
      have pre: "filter is_dma_start ?pre = expected_starts (m_DeviceMode s)"
        "cs_writes ?pre = [?old OR CS_A_DMAEN]"
        using io dq starts by (auto simp: expected_starts_def)
      have bits: "\<forall>v\<in>set (cs_writes ?pre).
                   v AND (CS_A_TXON OR CS_A_RXON) = ?old AND (CS_A_TXON OR CS_A_RXON)"
        unfolding pre(2) using TXRX_bits_kept [of ?old] by simp
      have tr: "trace (snd (Start env s)) = trace s @ ?es"
        using a t True s1(1) by simp
      have okfst: "fst (Start env s)" using a True by simp
      show ?thesis
        apply (rule exI [of _ ?es])
        apply (intro conjI)
        subgoal by (rule tr)
        subgoal using pre bits by (intro impI exI [of _ ?pre] conjI) simp_all
        subgoal using nf by blast
        subgoal using okfst by blast
        subgoal using okfst by blast
        done
    next
      case F: False
      have tr: "trace (snd (Start env s)) = trace s @ ?pre"
        using a t F s1(1) by simp
      have st': "(m_DeviceMode s \<noteq> DeviceModeRXOnly \<and> starts = [TXBuffersStart TXCompleted False])
          \<or> (m_DeviceMode s \<noteq> DeviceModeTXOnly
              \<and> starts = (if m_DeviceMode s = DeviceModeRXOnly then []
                           else [TXBuffersStart TXCompleted True])
                          @ [RXBuffersStart RXCompleted False])"
        using st F by simp
      have c0: "\<exists>e\<in>set ?pre. is_failed_start e" using st' by auto
      have c1: "is_failed_start (last ?pre)" using st' by auto
      have c2: "cs_writes ?pre = [?old OR CS_A_DMAEN]" using io dq st' by auto
      have c3: "filter is_cancel ?pre = []" using io dq st' by auto
      have c4: "filter is_dma_start ?pre = [TXBuffersStart TXCompleted False]
             \<or> filter is_dma_start ?pre = [RXBuffersStart RXCompleted False]
             \<or> filter is_dma_start ?pre =
                 [TXBuffersStart TXCompleted True, RXBuffersStart RXCompleted False]"
        using io dq st' by (cases "m_DeviceMode s") auto
      have c5: "regs (snd (Start env s)) ARM_PCM_CS_A = ?old OR CS_A_DMAEN"
        using a rg F by simp
      have c6: "m_bError (snd (Start env s))" using a er F by simp
      show ?thesis
        apply (rule exI [of _ ?pre])
        using tr c0 c1 c2 c3 c4 c5 c6 a F TXRX_bits_kept [of ?old] by simp
    qed
  qed
qed

theorem C7_enable_after_dma_witness:
  "(\<exists>es. trace (snd (Start env_rx_fails dev0)) = trace dev0 @ es
      \<and> (\<exists>e\<in>set es. is_failed_start e)
      \<and> \<not> fst (Start env_rx_fails dev0)
      \<and> m_bError (snd (Start env_rx_fails dev0))
      \<and> cs_writes es = [regs dev0 ARM_PCM_CS_A OR CS_A_DMAEN]
      \<and> filter is_dma_start es
           = [TXBuffersStart TXCompleted True, RXBuffersStart RXCompleted False]
      \<and> filter is_cancel es = [])
   \<and> (\<exists>es pre. trace (snd (Start env_ok dev0)) = trace dev0 @ es
      \<and> fst (Start env_ok dev0)
      \<and> es = pre @ [PeripheralEntry,
                     Write32 ARM_PCM_CS_A
                       (regs dev0 ARM_PCM_CS_A OR CS_A_DMAEN OR nTXRXOn_of (m_DeviceMode dev0)),
                     PeripheralExit]
      \<and> filter is_dma_start pre = expected_starts (m_DeviceMode dev0))
   \<and> (\<exists>es. trace (snd (Start env_dead_bus (dev0\<lparr>m_ucI2CAddress := 0x4C\<rparr>)))
             = trace (dev0\<lparr>m_ucI2CAddress := 0x4C\<rparr>) @ es
      \<and> \<not> fst (Start env_dead_bus (dev0\<lparr>m_ucI2CAddress := 0x4C\<rparr>))
      \<and> \<not> (\<exists>e\<in>set es. is_failed_start e)
      \<and> cs_writes es = []
      \<and> filter is_dma_start es = []
      \<and> regs (snd (Start env_dead_bus (dev0\<lparr>m_ucI2CAddress := 0x4C\<rparr>)))
          = regs (dev0\<lparr>m_ucI2CAddress := 0x4C\<rparr>))"
proof -
  from C7_enable_after_dma [of env_rx_fails dev0] obtain es where
    es: "trace (snd (Start env_rx_fails dev0)) = trace dev0 @ es"
    and imp: "(\<exists>e\<in>set es. is_failed_start e) \<longrightarrow>
            \<not> fst (Start env_rx_fails dev0)
          \<and> m_bError (snd (Start env_rx_fails dev0))
          \<and> is_failed_start (last es)
          \<and> cs_writes es = [regs dev0 ARM_PCM_CS_A OR CS_A_DMAEN]
          \<and> regs (snd (Start env_rx_fails dev0)) ARM_PCM_CS_A = regs dev0 ARM_PCM_CS_A OR CS_A_DMAEN
          \<and> regs (snd (Start env_rx_fails dev0)) ARM_PCM_CS_A AND (CS_A_TXON OR CS_A_RXON)
              = regs dev0 ARM_PCM_CS_A AND (CS_A_TXON OR CS_A_RXON)
          \<and> filter is_cancel es = []
          \<and> (filter is_dma_start es = [TXBuffersStart TXCompleted False]
             \<or> filter is_dma_start es = [RXBuffersStart RXCompleted False]
             \<or> filter is_dma_start es =
                 [TXBuffersStart TXCompleted True, RXBuffersStart RXCompleted False])"
    by blast
  have "RXBuffersStart RXCompleted False \<in> set (trace (snd (Start env_rx_fails dev0)))"
       "TXBuffersStart TXCompleted True \<in> set (trace (snd (Start env_rx_fails dev0)))"
    by (simp_all add: model_defs fixture_defs)
  then have mem: "RXBuffersStart RXCompleted False \<in> set es" "TXBuffersStart TXCompleted True \<in> set es"
    using es by (simp_all add: dev0_def)
  then have hyp: "\<exists>e\<in>set es. is_failed_start e" by force
  have "filter is_dma_start (trace (snd (Start env_rx_fails dev0)))
           = [TXBuffersStart TXCompleted True, RXBuffersStart RXCompleted False]"
    by (simp add: model_defs fixture_defs)
  then have dma: "filter is_dma_start es
           = [TXBuffersStart TXCompleted True, RXBuffersStart RXCompleted False]"
    using es by (simp add: dev0_def)
  have first: "\<exists>es. trace (snd (Start env_rx_fails dev0)) = trace dev0 @ es
      \<and> (\<exists>e\<in>set es. is_failed_start e)
      \<and> \<not> fst (Start env_rx_fails dev0)
      \<and> m_bError (snd (Start env_rx_fails dev0))
      \<and> cs_writes es = [regs dev0 ARM_PCM_CS_A OR CS_A_DMAEN]
      \<and> filter is_dma_start es
           = [TXBuffersStart TXCompleted True, RXBuffersStart RXCompleted False]
      \<and> filter is_cancel es = []"
    using es imp hyp dma by blast
  from C7_enable_after_dma [of env_ok dev0] obtain es' where
    es': "trace (snd (Start env_ok dev0)) = trace dev0 @ es'"
    and imp': "fst (Start env_ok dev0) \<longrightarrow>
          (\<exists>pre. es' = pre @ [PeripheralEntry,
                            Write32 ARM_PCM_CS_A
                              (regs dev0 ARM_PCM_CS_A OR CS_A_DMAEN OR nTXRXOn_of (m_DeviceMode dev0)),
                            PeripheralExit]
             \<and> filter is_dma_start pre = expected_starts (m_DeviceMode dev0)
             \<and> cs_writes pre = [regs dev0 ARM_PCM_CS_A OR CS_A_DMAEN])"
    by blast
  have ok: "fst (Start env_ok dev0)"
    by (simp add: model_defs fixture_defs)
  have second: "\<exists>es pre. trace (snd (Start env_ok dev0)) = trace dev0 @ es
      \<and> fst (Start env_ok dev0)
      \<and> es = pre @ [PeripheralEntry,
                     Write32 ARM_PCM_CS_A
                       (regs dev0 ARM_PCM_CS_A OR CS_A_DMAEN OR nTXRXOn_of (m_DeviceMode dev0)),
                     PeripheralExit]
      \<and> filter is_dma_start pre = expected_starts (m_DeviceMode dev0)"
    using es' imp' ok by blast
  let ?d = "dev0\<lparr>m_ucI2CAddress := 0x4C\<rparr>"
  from C7_enable_after_dma [of env_dead_bus ?d] obtain es3 where
    es3: "trace (snd (Start env_dead_bus ?d)) = trace ?d @ es3"
    and imp3: "\<not> fst (Start env_dead_bus ?d) \<and> \<not> (\<exists>e\<in>set es3. is_failed_start e) \<longrightarrow>
            cs_writes es3 = []
          \<and> filter is_dma_start es3 = []
          \<and> filter is_cancel es3 = []
          \<and> regs (snd (Start env_dead_bus ?d)) = regs ?d"
    by blast
  have nok: "\<not> fst (Start env_dead_bus ?d)"
    by (simp add: model_defs fixture_defs)
  have "filter is_failed_start (trace (snd (Start env_dead_bus ?d))) = []"
    by (simp add: model_defs fixture_defs)
  then have "filter is_failed_start es3 = []"
    using es3 by (simp add: dev0_def)
  then have nofail: "\<not> (\<exists>e\<in>set es3. is_failed_start e)"
    by (simp add: filter_empty_conv)
  have third: "\<exists>es. trace (snd (Start env_dead_bus ?d)) = trace ?d @ es
      \<and> \<not> fst (Start env_dead_bus ?d)
      \<and> \<not> (\<exists>e\<in>set es. is_failed_start e)
      \<and> cs_writes es = []
      \<and> filter is_dma_start es = []
      \<and> regs (snd (Start env_dead_bus ?d)) = regs ?d"
    using es3 imp3 nok nofail by blast
  from first second third show ?thesis by blast
qed

section \<open>The codec is brought up at most once\<close>

lemma Start_after_bringup:
  assumes "\<not> m_bError s" "m_DeviceMode s \<noteq> DeviceModeRXOnly" "m_pI2CMaster s" "\<not> m_bI2CInited s"
  shows "m_bI2CInited (snd (Start env s)) \<or> m_bError (snd (Start env s))"
proof -
  from DACInit_frame [of env s] obtain es ok where
    r: "Start_DACInit env s =
            (ok, if ok then s\<lparr>trace := trace s @ es, m_bI2CInited := True\<rparr>
                 else s\<lparr>trace := trace s @ es, m_bError := True\<rparr>)" by blast
  show ?thesis
  proof (cases ok)
    case True
    let ?s1 = "s\<lparr>trace := trace s @ es, m_bI2CInited := True\<rparr>"
    have "Start env s = Start_Streaming env ?s1"
      using assms r True by (simp add: Start_def)
    moreover from Streaming_frame [of env ?s1]
    have "m_bI2CInited (snd (Start_Streaming env ?s1))" by auto
    ultimately show ?thesis by simp
  next
    case False
    then have "Start env s = (False, s\<lparr>trace := trace s @ es, m_bError := True\<rparr>)"
      using assms r by (simp add: Start_def)
    then show ?thesis by simp
  qed
qed

text \<open>
  Claim C6. Take a call of Start that reaches the codec bring-up step (no fault, mode not
  RX-only, an I2C master supplied, bring-up not yet done). Whatever calls follow it on the
  same object, in any number and order (Start, Cancel, IsActive, completion handlers), none
  of them issues an I2C write.
\<close>

theorem C6_bringup_once:
  assumes "\<not> m_bError s" "m_DeviceMode s \<noteq> DeviceModeRXOnly" "m_pI2CMaster s"
    "\<not> m_bI2CInited s"
  shows "\<exists>es. trace (run env cs (snd (Start env s))) = trace (snd (Start env s)) @ es
           \<and> filter is_I2CWrite es = []"
proof -
  let ?s1 = "snd (Start env s)"
  have inv: "m_bI2CInited ?s1 \<or> m_bError ?s1"
    using assms by (rule Start_after_bringup)
  from run_frame [of env cs ?s1] obtain es where
    es: "trace (run env cs ?s1) = trace ?s1 @ es" "\<forall>e\<in>set es. may_emit ?s1 e" by blast
  have "\<forall>e\<in>set es. \<not> is_I2CWrite e"
  proof
    fix e assume "e \<in> set es"
    then have "may_emit ?s1 e" using es(2) by blast
    then show "\<not> is_I2CWrite e" using inv by (cases e) auto
  qed
  then have "filter is_I2CWrite es = []" by (simp add: filter_empty_conv)
  with es(1) show ?thesis by blast
qed

theorem C6_bringup_once_witness:
  "\<not> m_bError dev0 \<and> m_DeviceMode dev0 \<noteq> DeviceModeRXOnly \<and> m_pI2CMaster dev0
   \<and> \<not> m_bI2CInited dev0
   \<and> filter is_I2CWrite (trace (snd (Start env_dead_bus dev0))) \<noteq> []
   \<and> (\<exists>es. trace (run env_dead_bus [CallStart, CallCancel, CallStart] (snd (Start env_dead_bus dev0)))
             = trace (snd (Start env_dead_bus dev0)) @ es
           \<and> filter is_I2CWrite es = [])"
proof -
  have h: "\<not> m_bError dev0" "m_DeviceMode dev0 \<noteq> DeviceModeRXOnly" "m_pI2CMaster dev0"
    "\<not> m_bI2CInited dev0"
    by (simp_all add: dev0_def)
  have "filter is_I2CWrite (trace (snd (Start env_dead_bus dev0))) \<noteq> []"
    by (simp add: model_defs fixture_defs)
  with h C6_bringup_once [OF h, of env_dead_bus "[CallStart, CallCancel, CallStart]"]
  show ?thesis by blast
qed

section \<open>The fault flag is sticky\<close>

text \<open>
  Claim C4. Once a completion handler (TX or RX) was invoked with status FALSE, the fault
  flag is set, and after any further calls on the object every Start returns FALSE at
  once and leaves the object, the registers and the log exactly as they were: no I2C
  write, no register write, no DMA start.
\<close>

theorem C4_fault_sticky:
  assumes "s1 = snd (TXCompletedHandler env False n s) \<or> s1 = snd (RXCompletedHandler False n s)"
  shows "m_bError s1 \<and> Start env (run env cs s1) = (False, run env cs s1)"
proof -
  have e: "m_bError s1"
    using assms by (auto simp: TXCompletedHandler_def RXCompletedHandler_def)
  from run_frame [of env cs s1] have "m_bError (run env cs s1)"
    using e by blast
  then have "Start env (run env cs s1) = (False, run env cs s1)"
    by (simp add: Start_def)
  with e show ?thesis by simp
qed

theorem C4_fault_sticky_witness:
  "m_bError (snd (TXCompletedHandler env_ok False 32 dev0))
   \<and> Start env_ok (run env_ok [CallCancel, CallStart] (snd (TXCompletedHandler env_ok False 32 dev0)))
       = (False, run env_ok [CallCancel, CallStart] (snd (TXCompletedHandler env_ok False 32 dev0)))
   \<and> m_bError (snd (RXCompletedHandler False 32 dev0))
   \<and> Start env_ok (run env_ok [CallStart] (snd (RXCompletedHandler False 32 dev0)))
       = (False, run env_ok [CallStart] (snd (RXCompletedHandler False 32 dev0)))"
  using C4_fault_sticky [of "snd (TXCompletedHandler env_ok False 32 dev0)" env_ok 32 dev0
                            "[CallCancel, CallStart]"]
        C4_fault_sticky [of "snd (RXCompletedHandler False 32 dev0)" env_ok 32 dev0 "[CallStart]"]
  by simp

section \<open>Which codec sequence runs, and when its failure is fatal\<close>

lemma Streaming_summary:
  "\<exists>es. trace (snd (Start_Streaming env s)) = trace s @ es
      \<and> filter is_I2CWrite es = []
      \<and> cs_writes es \<noteq> []
      \<and> (fst (Start_Streaming env s) \<longleftrightarrow> filter is_failed_start es = [])
      \<and> m_bError (snd (Start_Streaming env s)) = (m_bError s \<or> \<not> fst (Start_Streaming env s))
      \<and> m_bI2CInited (snd (Start_Streaming env s)) = m_bI2CInited s"
proof -
  let ?r = "Start_Streaming env s"
  let ?old = "regs s ARM_PCM_CS_A"
  from Streaming_shape [of env s] obtain d starts where
    d: "\<forall>e\<in>set d. is_DREQ_write e"
    and t: "trace (snd ?r) =
        trace s @ [PeripheralEntry] @ d @ [Write32 ARM_PCM_CS_A (?old OR CS_A_DMAEN), PeripheralExit]
        @ starts
        @ (if fst ?r
           then [PeripheralEntry,
                 Write32 ARM_PCM_CS_A (?old OR CS_A_DMAEN OR nTXRXOn_of (m_DeviceMode s)),
                 PeripheralExit]
           else [])"
    and st: "if fst ?r then starts = expected_starts (m_DeviceMode s)
       else (m_DeviceMode s \<noteq> DeviceModeRXOnly \<and> starts = [TXBuffersStart TXCompleted False])
          \<or> (m_DeviceMode s \<noteq> DeviceModeTXOnly
              \<and> starts = (if m_DeviceMode s = DeviceModeRXOnly then []
                           else [TXBuffersStart TXCompleted True])
                          @ [RXBuffersStart RXCompleted False])"
    and er: "m_bError (snd ?r) = (m_bError s \<or> \<not> fst ?r)"
    by blast
  note dq = DREQ_only [OF d]
  have i: "m_bI2CInited (snd ?r) = m_bI2CInited s"
    using Streaming_frame [of env s] by blast
  have s1: "filter is_I2CWrite starts = []"
    using st by (cases "m_DeviceMode s") (auto simp: expected_starts_def split: if_splits)
  have s2: "fst ?r \<longleftrightarrow> filter is_failed_start starts = []"
    using st by (cases "m_DeviceMode s") (auto simp: expected_starts_def split: if_splits)
  let ?es = "[PeripheralEntry] @ d @ [Write32 ARM_PCM_CS_A (?old OR CS_A_DMAEN), PeripheralExit]
        @ starts
        @ (if fst ?r
           then [PeripheralEntry,
                 Write32 ARM_PCM_CS_A (?old OR CS_A_DMAEN OR nTXRXOn_of (m_DeviceMode s)),
                 PeripheralExit]
           else [])"
  have "trace (snd ?r) = trace s @ ?es" using t by simp
  moreover have "filter is_I2CWrite ?es = []" using dq s1 by simp
  moreover have "cs_writes ?es \<noteq> []" by simp
  moreover have "fst ?r \<longleftrightarrow> filter is_failed_start ?es = []" using dq s2 by simp
  ultimately show ?thesis using er i by blast
qed

text \<open>
  Claim C5. Take a call of Start that reaches the codec bring-up step, and let \<open>es\<close> be
  its events. With a nonzero address the I2C writes of the call are one run through a
  command table at that address: the table of InitWM8960 (Variant B) when the address is
  0x1A, the table of InitPCM51xx (Variant A) otherwise; when that run fails, Start returns
  FALSE with the fault flag set and does nothing else. With address 0 the I2C writes are a
  run of Variant A at 0x4C, followed, if it failed, by a run of Variant A at 0x4D,
  followed, if that failed too, by a run of Variant B at 0x1A; whatever their outcome the
  bring-up counts as done, Start goes on to program the registers, and it returns TRUE
  unless a DMA start fails.
\<close>

theorem C5_codec_selection:
  assumes "\<not> m_bError s" "m_DeviceMode s \<noteq> DeviceModeRXOnly" "m_pI2CMaster s"
    "\<not> m_bI2CInited s"
  shows "\<exists>es. trace (snd (Start env s)) = trace s @ es \<and>
     (if m_ucI2CAddress s = 0 then
        (\<exists>e1 e2 e3 ok1 ok2 ok3.
            filter is_I2CWrite es = e1 @ e2 @ e3
          \<and> transactions 0x4C initBytes_PCM51xx e1 ok1
          \<and> (if ok1 then e2 = [] \<and> e3 = []
             else transactions 0x4D initBytes_PCM51xx e2 ok2
                \<and> (if ok2 then e3 = [] else transactions 0x1A initBytes_WM8960 e3 ok3)))
        \<and> m_bI2CInited (snd (Start env s))
        \<and> cs_writes es \<noteq> []
        \<and> (fst (Start env s) \<longleftrightarrow> filter is_failed_start es = [])
        \<and> (m_bError (snd (Start env s)) \<longleftrightarrow> filter is_failed_start es \<noteq> [])
      else
        (\<exists>ok. transactions (m_ucI2CAddress s)
                 (if m_ucI2CAddress s = 0x1A then initBytes_WM8960 else initBytes_PCM51xx)
                 (filter is_I2CWrite es) ok
           \<and> (if ok then m_bI2CInited (snd (Start env s)) \<and> cs_writes es \<noteq> []
              else Start env s = (False, s\<lparr>trace := trace s @ es, m_bError := True\<rparr>)
                   \<and> filter is_I2CWrite es = es)))"
proof -
  have unfold: "Start env s =
      (if fst (Start_DACInit env s) then Start_Streaming env (snd (Start_DACInit env s))
       else (False, snd (Start_DACInit env s)))"
    using assms by (simp add: Start_def split_beta)
  have after: "\<And>i2c. (\<forall>e\<in>set i2c. is_I2CWrite e) \<Longrightarrow>
      Start_DACInit env s = (True, s\<lparr>trace := trace s @ i2c, m_bI2CInited := True\<rparr>) \<Longrightarrow>
      \<exists>es. trace (snd (Start env s)) = trace s @ es \<and> filter is_I2CWrite es = i2c
         \<and> m_bI2CInited (snd (Start env s)) \<and> cs_writes es \<noteq> []
         \<and> (fst (Start env s) \<longleftrightarrow> filter is_failed_start es = [])
         \<and> (m_bError (snd (Start env s)) \<longleftrightarrow> filter is_failed_start es \<noteq> [])"
  proof -
    fix i2c assume i2c: "\<forall>e\<in>set i2c. is_I2CWrite e"
      and r: "Start_DACInit env s = (True, s\<lparr>trace := trace s @ i2c, m_bI2CInited := True\<rparr>)"
    let ?s1 = "s\<lparr>trace := trace s @ i2c, m_bI2CInited := True\<rparr>"
    have st: "Start env s = Start_Streaming env ?s1" using unfold r by simp
    from Streaming_summary [of env ?s1] obtain es where
      es: "trace (snd (Start_Streaming env ?s1)) = trace ?s1 @ es"
          "filter is_I2CWrite es = []" "cs_writes es \<noteq> []"
          "fst (Start_Streaming env ?s1) \<longleftrightarrow> filter is_failed_start es = []"
          "m_bError (snd (Start_Streaming env ?s1)) = (m_bError ?s1 \<or> \<not> fst (Start_Streaming env ?s1))"
          "m_bI2CInited (snd (Start_Streaming env ?s1)) = m_bI2CInited ?s1" by blast
    note io = I2C_only [OF i2c]
    show "\<exists>es. trace (snd (Start env s)) = trace s @ es \<and> filter is_I2CWrite es = i2c
         \<and> m_bI2CInited (snd (Start env s)) \<and> cs_writes es \<noteq> []
         \<and> (fst (Start env s) \<longleftrightarrow> filter is_failed_start es = [])
         \<and> (m_bError (snd (Start env s)) \<longleftrightarrow> filter is_failed_start es \<noteq> [])"
      using st es io assms(1) by (intro exI [of _ "i2c @ es"]) simp
  qed
  show ?thesis
  proof (cases "m_ucI2CAddress s = 0")
    case True
    from DACInit_probe [OF True, of env] obtain e1 e2 e3 ok1 ok2 ok3 where
      t: "transactions 0x4C initBytes_PCM51xx e1 ok1"
         "if ok1 then e2 = [] \<and> e3 = []
          else transactions 0x4D initBytes_PCM51xx e2 ok2
               \<and> (if ok2 then e3 = [] else transactions 0x1A initBytes_WM8960 e3 ok3)"
      and r: "Start_DACInit env s =
                (True, s\<lparr>trace := trace s @ e1 @ e2 @ e3, m_bI2CInited := True\<rparr>)"
      by blast
    have "\<forall>e\<in>set (e1 @ e2 @ e3). is_I2CWrite e"
      using t transactions_I2C by (auto split: if_splits)
    from after [OF this r] obtain es where
      es: "trace (snd (Start env s)) = trace s @ es" "filter is_I2CWrite es = e1 @ e2 @ e3"
          "m_bI2CInited (snd (Start env s))" "cs_writes es \<noteq> []"
          "fst (Start env s) \<longleftrightarrow> filter is_failed_start es = []"
          "m_bError (snd (Start env s)) \<longleftrightarrow> filter is_failed_start es \<noteq> []" by blast
    have ex: "\<exists>e1 e2 e3 ok1 ok2 ok3.
            filter is_I2CWrite es = e1 @ e2 @ e3
          \<and> transactions 0x4C initBytes_PCM51xx e1 ok1
          \<and> (if ok1 then e2 = [] \<and> e3 = []
             else transactions 0x4D initBytes_PCM51xx e2 ok2
                \<and> (if ok2 then e3 = [] else transactions 0x1A initBytes_WM8960 e3 ok3))"
      using es(2) t by blast
    show ?thesis
      unfolding if_P [OF True]
      using es(1,3-6) ex by blast
  next
    case False
    let ?a = "m_ucI2CAddress s"
    let ?tbl = "if ?a = 0x1A then initBytes_WM8960 else initBytes_PCM51xx"
    have "\<exists>i2c ok. transactions ?a ?tbl i2c ok
           \<and> Start_DACInit env s =
               (ok, if ok then s\<lparr>trace := trace s @ i2c, m_bI2CInited := True\<rparr>
                    else s\<lparr>trace := trace s @ i2c, m_bError := True\<rparr>)"
    proof (cases "?a = 0x1A")
      case True
      then show ?thesis using DACInit_fixed_B [OF True, of env] by simp
    next
      case F: False
      then show ?thesis using DACInit_fixed_A [OF False F, of env] by simp
    qed
    then obtain i2c ok where
      t: "transactions ?a ?tbl i2c ok"
      and r: "Start_DACInit env s =
               (ok, if ok then s\<lparr>trace := trace s @ i2c, m_bI2CInited := True\<rparr>
                    else s\<lparr>trace := trace s @ i2c, m_bError := True\<rparr>)" by blast
    have i2c: "\<forall>e\<in>set i2c. is_I2CWrite e" using t by (rule transactions_I2C)
    show ?thesis
    proof (cases ok)
      case True
      with r have "Start_DACInit env s = (True, s\<lparr>trace := trace s @ i2c, m_bI2CInited := True\<rparr>)"
        by simp
      from after [OF i2c this] obtain es where
        es: "trace (snd (Start env s)) = trace s @ es" "filter is_I2CWrite es = i2c"
          "m_bI2CInited (snd (Start env s))" "cs_writes es \<noteq> []" by blast
      have "transactions ?a ?tbl (filter is_I2CWrite es) True"
        using t True es(2) by simp
      then show ?thesis
        unfolding if_not_P [OF False]
        using es(1,3,4) by (intro exI [of _ es] conjI exI [of _ True]) simp_all
    next
      case F: False
      then have "Start env s = (False, s\<lparr>trace := trace s @ i2c, m_bError := True\<rparr>)"
        using unfold r by simp
      moreover have "transactions ?a ?tbl (filter is_I2CWrite i2c) False"
        using t F I2C_only(5) [OF i2c] by simp
      ultimately show ?thesis
        unfolding if_not_P [OF False]
        using I2C_only(5) [OF i2c]
        by (intro exI [of _ i2c] conjI exI [of _ False]) simp_all
    qed
  qed
qed

theorem C5_codec_selection_witness:
  "\<not> m_bError dev0 \<and> m_DeviceMode dev0 \<noteq> DeviceModeRXOnly \<and> m_pI2CMaster dev0
   \<and> \<not> m_bI2CInited dev0 \<and> m_ucI2CAddress dev0 = 0
   \<and> filter is_I2CWrite (trace (snd (Start env_dead_bus dev0)))
       = [I2CWrite 0x4C [0x0d, 0x10] (- 1), I2CWrite 0x4D [0x0d, 0x10] (- 1),
          I2CWrite 0x1A [0x1e, 0x00] (- 1)]
   \<and> (\<exists>es. trace (snd (Start env_dead_bus dev0)) = trace dev0 @ es
        \<and> m_bI2CInited (snd (Start env_dead_bus dev0))
        \<and> cs_writes es \<noteq> []
        \<and> fst (Start env_dead_bus dev0) = (filter is_failed_start es = []))
   \<and> fst (Start env_dead_bus dev0)
   \<and> \<not> fst (Start env_dead_bus (dev0\<lparr>m_ucI2CAddress := 0x4C\<rparr>))
   \<and> \<not> fst (Start env_dead_bus (dev0\<lparr>m_ucI2CAddress := 0x1A\<rparr>))"
proof -
  have h: "\<not> m_bError dev0" "m_DeviceMode dev0 \<noteq> DeviceModeRXOnly" "m_pI2CMaster dev0"
    "\<not> m_bI2CInited dev0"
    by (simp_all add: dev0_def)
  have a: "m_ucI2CAddress dev0 = 0" by (simp add: dev0_def)
  have ev: "filter is_I2CWrite (trace (snd (Start env_dead_bus dev0)))
       = [I2CWrite 0x4C [0x0d, 0x10] (- 1), I2CWrite 0x4D [0x0d, 0x10] (- 1),
          I2CWrite 0x1A [0x1e, 0x00] (- 1)]"
       "fst (Start env_dead_bus dev0)"
       "\<not> fst (Start env_dead_bus (dev0\<lparr>m_ucI2CAddress := 0x4C\<rparr>))"
       "\<not> fst (Start env_dead_bus (dev0\<lparr>m_ucI2CAddress := 0x1A\<rparr>))"
    by (simp_all add: model_defs fixture_defs)
  from C5_codec_selection [OF h, of env_dead_bus] a
  have "\<exists>es. trace (snd (Start env_dead_bus dev0)) = trace dev0 @ es
        \<and> m_bI2CInited (snd (Start env_dead_bus dev0))
        \<and> cs_writes es \<noteq> []
        \<and> fst (Start env_dead_bus dev0) = (filter is_failed_start es = [])"
    by auto
  with h a ev show ?thesis by blast
qed

section \<open>The bit-packed codec sequence\<close>

lemma SHIFT_BIT_eq:
  "SHIFT_BIT r v = [word_of_int ((drop_bit 8 v AND 1) OR push_bit 1 r), word_of_int (v AND 0xFF)]"
  by (simp add: SHIFT_BIT_def)

text \<open>
  Claim C9. The macro SHIFT_BIT packs a register number and a value into the two bytes
  ((value >> 8) & 1) | (register << 1) and value & 0xFF; the table of InitWM8960 is that
  packing of its 29 (register, value) pairs, every register fitting 7 bits and every
  value 9 bits, so every command is two bytes long. The events of InitWM8960 at an
  address are a run through that table: command after command, each sent as it stands in
  the table, stopping with the result FALSE at the first write that does not transfer
  exactly 2 bytes, and TRUE when all were transferred.
\<close>

theorem C9_WM8960_transactions:
  "(\<forall>r v. SHIFT_BIT r v =
            [word_of_int ((drop_bit 8 v AND 1) OR push_bit 1 r), word_of_int (v AND 0xFF)])
   \<and> initBytes_WM8960 =
       map (\<lambda>(r, v). [word_of_int ((drop_bit 8 v AND 1) OR push_bit 1 r), word_of_int (v AND 0xFF)])
         WM8960_regs
   \<and> list_all (\<lambda>(r, v). 0 \<le> r \<and> r < 2 ^ 7 \<and> 0 \<le> v \<and> v < 2 ^ 9) WM8960_regs
   \<and> list_all (\<lambda>c. length c = 2) initBytes_WM8960
   \<and> (\<exists>es. snd (InitWM8960 env a s) = s\<lparr>trace := trace s @ es\<rparr>
          \<and> transactions a initBytes_WM8960 es (fst (InitWM8960 env a s)))"
proof -
  have 1: "\<forall>r v. SHIFT_BIT r v =
            [word_of_int ((drop_bit 8 v AND 1) OR push_bit 1 r), word_of_int (v AND 0xFF)]"
    by (simp add: SHIFT_BIT_eq)
  have 2: "initBytes_WM8960 =
       map (\<lambda>(r, v). [word_of_int ((drop_bit 8 v AND 1) OR push_bit 1 r), word_of_int (v AND 0xFF)])
         WM8960_regs"
    unfolding initBytes_WM8960_def by (rule map_cong) (auto simp: SHIFT_BIT_eq)
  have 3: "list_all (\<lambda>(r, v). 0 \<le> r \<and> r < 2 ^ 7 \<and> 0 \<le> v \<and> v < 2 ^ 9) WM8960_regs"
    by (simp add: WM8960_regs_def)
  have 4: "list_all (\<lambda>c. length c = 2) initBytes_WM8960"
    using WM8960_len by (simp add: list_all_iff)
  from 1 2 3 4 InitWM8960_frame [of env a s] show ?thesis by blast
qed

theorem C9_WM8960_transactions_witness:
  "\<exists>es. snd (InitWM8960 env_bus_breaks 0x1A dev0) = dev0\<lparr>trace := trace dev0 @ es\<rparr>
      \<and> transactions 0x1A initBytes_WM8960 es False
      \<and> \<not> fst (InitWM8960 env_bus_breaks 0x1A dev0)
      \<and> es = [I2CWrite 0x1A [0x1e, 0x00] 2, I2CWrite 0x1A [0x33, 0xfc] 2,
               I2CWrite 0x1A [0x35, 0xf9] 0]"
proof -
  have ev: "InitWM8960 env_bus_breaks 0x1A dev0 =
     (False, dev0\<lparr>trace := [I2CWrite 0x1A [0x1e, 0x00] 2, I2CWrite 0x1A [0x33, 0xfc] 2,
               I2CWrite 0x1A [0x35, 0xf9] 0]\<rparr>)"
    by (simp add: model_defs fixture_defs)
  from C9_WM8960_transactions [of env_bus_breaks "0x1A" dev0] obtain es where
    es: "snd (InitWM8960 env_bus_breaks 0x1A dev0) = dev0\<lparr>trace := trace dev0 @ es\<rparr>"
        "transactions 0x1A initBytes_WM8960 es (fst (InitWM8960 env_bus_breaks 0x1A dev0))"
    by blast
  have "trace (snd (InitWM8960 env_bus_breaks 0x1A dev0)) = trace dev0 @ es"
    using es(1) by simp
  then have "es = [I2CWrite 0x1A [0x1e, 0x00] 2, I2CWrite 0x1A [0x33, 0xfc] 2,
               I2CWrite 0x1A [0x35, 0xf9] 0]"
    using ev by (simp add: dev0_def)
  with es ev show ?thesis by simp
qed

section \<open>Construction, destruction and the whole log of an object\<close>

lemma emit_simps:
  "trace (emit e s) = trace s @ [e]"
  "regs (emit e s) = regs s"
  "m_DeviceMode (emit e s) = m_DeviceMode s"
  "m_pI2CMaster (emit e s) = m_pI2CMaster s"
  "m_bSlave (emit e s) = m_bSlave s"
  "m_nChunkSize (emit e s) = m_nChunkSize s"
  "m_ucI2CAddress (emit e s) = m_ucI2CAddress s"
  "m_nSampleRate (emit e s) = m_nSampleRate s"
  "m_bError (emit e s) = m_bError s"
  "m_bI2CInited (emit e s) = m_bI2CInited s"
  by (simp_all add: emit_def)

lemma write32_simps:
  "trace (write32 r v s) = trace s @ [Write32 r v]"
  "regs (write32 r v s) = (regs s)(r := v)"
  "m_DeviceMode (write32 r v s) = m_DeviceMode s"
  "m_pI2CMaster (write32 r v s) = m_pI2CMaster s"
  "m_bSlave (write32 r v s) = m_bSlave s"
  "m_nChunkSize (write32 r v s) = m_nChunkSize s"
  "m_ucI2CAddress (write32 r v s) = m_ucI2CAddress s"
  "m_nSampleRate (write32 r v s) = m_nSampleRate s"
  "m_bError (write32 r v s) = m_bError s"
  "m_bI2CInited (write32 r v s) = m_bI2CInited s"
  by (simp_all add: write32_def emit_def)

lemma RunI2S_trace:
  "\<exists>es. trace (RunI2S env s) = trace s @ es
      \<and> (\<forall>e\<in>set es. setup_event (m_DeviceMode s) e)"
  by (cases "m_DeviceMode s")
     (simp_all add: RunI2S_def Let_def emit_simps write32_simps)

lemma RunI2S_fields:
  "same_config s (RunI2S env s)"
  "m_bError (RunI2S env s) = m_bError s"
  "m_bI2CInited (RunI2S env s) = m_bI2CInited s"
  by (simp_all add: RunI2S_def Let_def emit_simps write32_simps same_config_def)

lemma StopI2S_trace:
  "\<exists>es. trace (StopI2S s) = trace s @ es
      \<and> (\<forall>e\<in>set es. setup_event (m_DeviceMode s) e)"
  by (cases "m_DeviceMode s")
     (simp_all add: StopI2S_def Let_def emit_simps write32_simps)

lemma Destructor_trace:
  "\<exists>es. trace (Destructor s) = trace s @ es
      \<and> (\<forall>e\<in>set es. setup_event (m_DeviceMode s) e)"
proof -
  let ?s' = "emit (RemoveDevice ''sndi2s'') s"
  from StopI2S_trace [of ?s'] obtain es where
    "trace (StopI2S ?s') = trace ?s' @ es" "\<forall>e\<in>set es. setup_event (m_DeviceMode ?s') e"
    by blast
  then show ?thesis
    by (intro exI [of _ "RemoveDevice ''sndi2s'' # es"]) (simp add: Destructor_def emit_simps)
qed

text \<open>What the constructor leaves behind when its assertions pass.\<close>

lemma ctor_frame:
  assumes "CI2SSoundBaseDevice env regs0 S n bSlave i2c a mode = Inr s0"
  shows "m_DeviceMode s0 = mode \<and> m_bSlave s0 = bSlave \<and> \<not> m_bError s0 \<and> \<not> m_bI2CInited s0
       \<and> (\<exists>c es. trace s0 = c @ es \<and> (\<forall>e\<in>set es. setup_event mode e)
            \<and> (if bSlave then c = []
               else \<exists>DivI DivF. ClockDivider (GetGPIOClockSourceRate env) S = Inr (DivI, DivF)
                      \<and> c = [ClockStart DivI DivF (if DivF > 0 then 1 else 0)]))"
proof -
  let ?s0 = "\<lparr>m_nSampleRate = S, m_nChunkSize = n, m_bSlave = bSlave,
                m_pI2CMaster = i2c, m_ucI2CAddress = a,
                m_DeviceMode = mode, m_bI2CInited = False, m_bError = False,
                regs = regs0, trace = []\<rparr>"
  have frame: "\<And>s1 c. s0 = emit (AddDevice ''sndi2s'') (RunI2S env s1) \<Longrightarrow>
      m_DeviceMode s1 = mode \<Longrightarrow> m_bSlave s1 = bSlave \<Longrightarrow> \<not> m_bError s1 \<Longrightarrow>
      \<not> m_bI2CInited s1 \<Longrightarrow> trace s1 = c \<Longrightarrow>
      m_DeviceMode s0 = mode \<and> m_bSlave s0 = bSlave \<and> \<not> m_bError s0 \<and> \<not> m_bI2CInited s0
       \<and> (\<exists>es. trace s0 = c @ es \<and> (\<forall>e\<in>set es. setup_event mode e))"
  proof -
    fix s1 c
    assume a: "s0 = emit (AddDevice ''sndi2s'') (RunI2S env s1)"
      "m_DeviceMode s1 = mode" "m_bSlave s1 = bSlave" "\<not> m_bError s1" "\<not> m_bI2CInited s1"
      "trace s1 = c"
    from RunI2S_trace [of env s1] obtain es where
      es: "trace (RunI2S env s1) = trace s1 @ es" "\<forall>e\<in>set es. setup_event (m_DeviceMode s1) e"
      by blast
    have f: "same_config s1 (RunI2S env s1)" "m_bError (RunI2S env s1) = m_bError s1"
      "m_bI2CInited (RunI2S env s1) = m_bI2CInited s1"
      by (rule RunI2S_fields)+
    show "m_DeviceMode s0 = mode \<and> m_bSlave s0 = bSlave \<and> \<not> m_bError s0 \<and> \<not> m_bI2CInited s0
       \<and> (\<exists>es. trace s0 = c @ es \<and> (\<forall>e\<in>set es. setup_event mode e))"
      using a es f
      by (intro conjI exI [of _ "es @ [AddDevice ''sndi2s'']"])
         (simp_all add: emit_simps same_config_def)
  qed
  show ?thesis
  proof (cases bSlave)
    case True
    then have "s0 = emit (AddDevice ''sndi2s'') (RunI2S env ?s0)"
      using assms by (simp add: CI2SSoundBaseDevice_def Let_def split: if_splits)
    from frame [OF this, of "[]"] True show ?thesis by simp
  next
    case False
    then obtain DivI DivF where
      cd: "ClockDivider (GetGPIOClockSourceRate env) S = Inr (DivI, DivF)"
      and s0: "s0 = emit (AddDevice ''sndi2s'')
                 (RunI2S env (emit (ClockStart DivI DivF (if DivF > 0 then 1 else 0)) ?s0))"
      using assms
      by (auto simp: CI2SSoundBaseDevice_def Let_def split: if_splits sum.splits)
    from frame [OF s0, of "[ClockStart DivI DivF (if DivF > 0 then 1 else 0)]"] False cd
    show ?thesis by (simp add: emit_simps)
  qed
qed

lemma setup_event_not:
  assumes "setup_event m e"
  shows "\<not> is_I2CWrite e" "\<not> rx_registration e" "\<not> is_ClockStart e"
    "m = DeviceModeTXOnly \<Longrightarrow> \<not> on_pin m_PCMDINPin e"
    "m = DeviceModeRXOnly \<Longrightarrow> \<not> on_pin m_PCMDOUTPin e"
  using assms by (cases e; auto)+

lemma may_emit_not:
  assumes "may_emit s e"
  shows "\<not> on_pin p e" "\<not> is_ClockStart e"
    "m_DeviceMode s = DeviceModeTXOnly \<Longrightarrow> \<not> rx_registration e"
    "m_DeviceMode s = DeviceModeRXOnly \<Longrightarrow> \<not> is_I2CWrite e"
  using assms by (cases e; auto)+

text \<open>The whole log of an object, from construction to destruction.\<close>

lemma lifetime_frame:
  assumes "CI2SSoundBaseDevice env regs0 S n bSlave i2c a mode = Inr s0"
  shows "\<exists>c e1 e2 e3.
           trace s0 = c @ e1
         \<and> trace (run env cs s0) = trace s0 @ e2
         \<and> trace (Destructor (run env cs s0)) = trace (run env cs s0) @ e3
         \<and> (\<forall>e\<in>set e1. setup_event mode e)
         \<and> (\<forall>e\<in>set e2. may_emit s0 e)
         \<and> (\<forall>e\<in>set e3. setup_event mode e)
         \<and> m_DeviceMode s0 = mode
         \<and> (if bSlave then c = []
            else \<exists>DivI DivF. ClockDivider (GetGPIOClockSourceRate env) S = Inr (DivI, DivF)
                   \<and> c = [ClockStart DivI DivF (if DivF > 0 then 1 else 0)])"
proof -
  from ctor_frame [OF assms] obtain c e1 where
    m: "m_DeviceMode s0 = mode"
    and c: "trace s0 = c @ e1" "\<forall>e\<in>set e1. setup_event mode e"
       "if bSlave then c = []
        else \<exists>DivI DivF. ClockDivider (GetGPIOClockSourceRate env) S = Inr (DivI, DivF)
               \<and> c = [ClockStart DivI DivF (if DivF > 0 then 1 else 0)]"
    by blast
  from run_frame [of env cs s0] obtain e2 where
    e2: "trace (run env cs s0) = trace s0 @ e2" "\<forall>e\<in>set e2. may_emit s0 e"
        "same_config s0 (run env cs s0)" by blast
  have m': "m_DeviceMode (run env cs s0) = mode"
    using e2(3) m by (simp add: same_config_def)
  from Destructor_trace [of "run env cs s0"] obtain e3 where
    e3: "trace (Destructor (run env cs s0)) = trace (run env cs s0) @ e3"
        "\<forall>e\<in>set e3. setup_event mode e"
    unfolding m' by blast
  from m c e2(1,2) e3 show ?thesis by blast
qed

lemma ctor_succeeds:
  assumes "32 \<le> nChunkSize" "nChunkSize AND 1 = 0"
    and "bSlave \<or> (0 < GetGPIOClockSourceRate env \<and> GetGPIOClockSourceRate env mod 64 = 0
                    \<and> 8000 \<le> nSampleRate \<and> nSampleRate \<le> 192000)"
  shows "\<exists>s. CI2SSoundBaseDevice env regs0 nSampleRate nChunkSize bSlave pI2CMaster ucI2CAddress
               DeviceMode = Inr s"
proof (cases bSlave)
  case True
  then show ?thesis using assms(1,2) by (simp add: CI2SSoundBaseDevice_def Let_def)
next
  case False
  with assms(3) have "0 < GetGPIOClockSourceRate env" "GetGPIOClockSourceRate env mod 64 = 0"
    "8000 \<le> nSampleRate" "nSampleRate \<le> 192000" by simp_all
  from ClockDivider_spec [OF this] obtain DivI DivF where
    "ClockDivider (GetGPIOClockSourceRate env) nSampleRate = Inr (DivI, DivF)" by blast
  then show ?thesis using False assms(1,2) by (simp add: CI2SSoundBaseDevice_def Let_def)
qed

section \<open>Mode gating\<close>

text \<open>
  Claim C8. Take any object the constructor returns, any sequence of calls on it (Start,
  Cancel, IsActive, completion handlers) and its destruction; the log only grows along the
  way. If the mode is TX-only, the whole log has no operation on the data-in pin (it is
  neither assigned nor given a mode) and no event that registers the RX completion handler
  with a DMA buffer pair. If the mode is RX-only, the whole log has no I2C write (the
  codec bring-up is skipped) and no operation on the data-out pin.
\<close>

theorem C8_mode_gating:
  assumes "CI2SSoundBaseDevice env regs0 nSampleRate nChunkSize bSlave pI2CMaster ucI2CAddress
             DeviceMode = Inr s0"
  shows "(DeviceMode = DeviceModeTXOnly \<longrightarrow>
            filter (on_pin m_PCMDINPin) (trace (Destructor (run env cs s0))) = []
          \<and> filter rx_registration (trace (Destructor (run env cs s0))) = [])
       \<and> (DeviceMode = DeviceModeRXOnly \<longrightarrow>
            filter is_I2CWrite (trace (Destructor (run env cs s0))) = []
          \<and> filter (on_pin m_PCMDOUTPin) (trace (Destructor (run env cs s0))) = [])
       \<and> (\<exists>es. trace (run env cs s0) = trace s0 @ es)
       \<and> (\<exists>es. trace (Destructor (run env cs s0)) = trace (run env cs s0) @ es)"
proof -
  from lifetime_frame [OF assms, of cs] obtain c e1 e2 e3 where
    t: "trace s0 = c @ e1" "trace (run env cs s0) = trace s0 @ e2"
       "trace (Destructor (run env cs s0)) = trace (run env cs s0) @ e3"
    and e1: "\<forall>e\<in>set e1. setup_event DeviceMode e"
    and e2: "\<forall>e\<in>set e2. may_emit s0 e"
    and e3: "\<forall>e\<in>set e3. setup_event DeviceMode e"
    and m: "m_DeviceMode s0 = DeviceMode"
    and c: "if bSlave then c = []
            else \<exists>DivI DivF. ClockDivider (GetGPIOClockSourceRate env) nSampleRate = Inr (DivI, DivF)
                   \<and> c = [ClockStart DivI DivF (if DivF > 0 then 1 else 0)]"
    by blast
  have whole: "trace (Destructor (run env cs s0)) = c @ e1 @ e2 @ e3"
    using t by simp
  have cc: "\<forall>e\<in>set c. \<not> on_pin m_PCMDINPin e \<and> \<not> on_pin m_PCMDOUTPin e
              \<and> \<not> rx_registration e \<and> \<not> is_I2CWrite e"
    using c by (auto split: if_splits)
  have tx: "DeviceMode = DeviceModeTXOnly \<Longrightarrow>
      \<forall>e\<in>set (c @ e1 @ e2 @ e3). \<not> on_pin m_PCMDINPin e \<and> \<not> rx_registration e"
    using cc e1 e2 e3 m setup_event_not(2,4) may_emit_not(1,3) by auto
  have rx: "DeviceMode = DeviceModeRXOnly \<Longrightarrow>
      \<forall>e\<in>set (c @ e1 @ e2 @ e3). \<not> is_I2CWrite e \<and> \<not> on_pin m_PCMDOUTPin e"
    using cc e1 e2 e3 m setup_event_not(1,5) may_emit_not(1,4) by auto
  have p1: "DeviceMode = DeviceModeTXOnly \<longrightarrow>
            filter (on_pin m_PCMDINPin) (trace (Destructor (run env cs s0))) = []
          \<and> filter rx_registration (trace (Destructor (run env cs s0))) = []"
    unfolding whole using tx by (auto simp: filter_empty_conv)
  have p2: "DeviceMode = DeviceModeRXOnly \<longrightarrow>
            filter is_I2CWrite (trace (Destructor (run env cs s0))) = []
          \<and> filter (on_pin m_PCMDOUTPin) (trace (Destructor (run env cs s0))) = []"
    unfolding whole using rx by (auto simp: filter_empty_conv)
  have p3: "\<exists>es. trace (run env cs s0) = trace s0 @ es"
    using t(2) by blast
  have p4: "\<exists>es. trace (Destructor (run env cs s0)) = trace (run env cs s0) @ es"
    using t(3) by blast
  from p1 p2 p3 p4 show ?thesis by (intro conjI)
qed

theorem C8_mode_gating_witness:
  "(\<exists>s0. CI2SSoundBaseDevice env_ok (\<lambda>r. 0) 48000 32 False True 0 DeviceModeTXOnly = Inr s0
       \<and> filter (on_pin m_PCMDINPin)
            (trace (Destructor (run env_ok [CallStart, CallRXCompleted True 32, CallCancel] s0))) = []
       \<and> filter rx_registration
            (trace (Destructor (run env_ok [CallStart, CallRXCompleted True 32, CallCancel] s0))) = [])
   \<and> (\<exists>s0. CI2SSoundBaseDevice env_ok (\<lambda>r. 0) 48000 32 False True 0 DeviceModeRXOnly = Inr s0
       \<and> filter is_I2CWrite
            (trace (Destructor (run env_ok [CallStart, CallStart, CallCancel] s0))) = []
       \<and> filter (on_pin m_PCMDOUTPin)
            (trace (Destructor (run env_ok [CallStart, CallStart, CallCancel] s0))) = [])"
proof -
  have pre: "(32::u32) \<le> 32" "(32::u32) AND 1 = 0"
    "False \<or> (0 < GetGPIOClockSourceRate env_ok \<and> GetGPIOClockSourceRate env_ok mod 64 = 0
                    \<and> (8000::u32) \<le> 48000 \<and> (48000::u32) \<le> 192000)"
    by (simp_all add: env_ok_def)
  from ctor_succeeds [OF pre] obtain s1 where
    s1: "CI2SSoundBaseDevice env_ok (\<lambda>r. 0) 48000 32 False True 0 DeviceModeTXOnly = Inr s1"
    by blast
  from ctor_succeeds [OF pre] obtain s2 where
    s2: "CI2SSoundBaseDevice env_ok (\<lambda>r. 0) 48000 32 False True 0 DeviceModeRXOnly = Inr s2"
    by blast
  from C8_mode_gating [OF s1, of "[CallStart, CallRXCompleted True 32, CallCancel]"] s1
  have a: "\<exists>s0. CI2SSoundBaseDevice env_ok (\<lambda>r. 0) 48000 32 False True 0 DeviceModeTXOnly = Inr s0
       \<and> filter (on_pin m_PCMDINPin)
            (trace (Destructor (run env_ok [CallStart, CallRXCompleted True 32, CallCancel] s0))) = []
       \<and> filter rx_registration
            (trace (Destructor (run env_ok [CallStart, CallRXCompleted True 32, CallCancel] s0))) = []"
    by blast
  from C8_mode_gating [OF s2, of "[CallStart, CallStart, CallCancel]"] s2
  have b: "\<exists>s0. CI2SSoundBaseDevice env_ok (\<lambda>r. 0) 48000 32 False True 0 DeviceModeRXOnly = Inr s0
       \<and> filter is_I2CWrite
            (trace (Destructor (run env_ok [CallStart, CallStart, CallCancel] s0))) = []
       \<and> filter (on_pin m_PCMDOUTPin)
            (trace (Destructor (run env_ok [CallStart, CallStart, CallCancel] s0))) = []"
    by blast
  from a b show ?thesis by (rule conjI)
qed

section \<open>The clock divider handed to the clock generator\<close>

text \<open>
  The carry does happen: at F = 12286528 and S = 192000 the rounded quotient is 4096, and
  the constructor hands (1, 0) to the clock generator.
\<close>

lemma carry_example:
  "nDivI_init 12286528 192000 = 0 \<and> nDivF_init 12286528 192000 = 4096
   \<and> ClockDivider 12286528 192000 = Inr (1, 0)"
  by (simp add: ClockDivider_def nDivI_init_def nDivF_init_def nTemp_def CHANLEN_def CHANS_def)

text \<open>
  Claim C1. When the assertions of the constructor hold (chunk size even and at least 32
  and, in master role, a reference frequency F > 0 divisible by 64 and a sample rate S
  between 8000 and 192000), the constructor returns an object. In master role its first
  action is the one start of the clock generator, with the divider pair the specification
  describes: B = F / 64, DivI = B / S, R = B mod S, DivF = round (R * 4096 / S), and
  DivI + 1 with DivF = 0 when that rounding gives more than 4095; the third argument is 1
  when DivF > 0 and 0 otherwise. In slave role the clock generator is not started, for any
  sample rate. No later call on the object and not its destruction start the clock
  generator again.
\<close>

theorem C1_clock_divider:
  assumes "32 \<le> nChunkSize" "nChunkSize AND 1 = 0"
    and "bSlave \<or> (0 < GetGPIOClockSourceRate env \<and> GetGPIOClockSourceRate env mod 64 = 0
                    \<and> 8000 \<le> nSampleRate \<and> nSampleRate \<le> 192000)"
  shows "\<exists>s. CI2SSoundBaseDevice env regs0 nSampleRate nChunkSize bSlave pI2CMaster ucI2CAddress
               DeviceMode = Inr s
     \<and> (if bSlave then filter is_ClockStart (trace s) = []
        else \<exists>DivI DivF.
               filter is_ClockStart (trace s) = [ClockStart DivI DivF (if DivF > 0 then 1 else 0)]
             \<and> hd (trace s) = ClockStart DivI DivF (if DivF > 0 then 1 else 0)
             \<and> (unat DivI, unat DivF)
                 = spec_Divider (unat (GetGPIOClockSourceRate env)) (unat nSampleRate))
     \<and> (\<forall>cs. filter is_ClockStart (trace (Destructor (run env cs s)))
               = filter is_ClockStart (trace s))"
proof -
  from ctor_succeeds [OF assms] obtain s where
    s: "CI2SSoundBaseDevice env regs0 nSampleRate nChunkSize bSlave pI2CMaster ucI2CAddress
               DeviceMode = Inr s" by blast
  have later: "filter is_ClockStart (trace (Destructor (run env cs s)))
               = filter is_ClockStart (trace s)" for cs
  proof -
    from lifetime_frame [OF s, of cs] obtain e2 e3 where
      t: "trace (run env cs s) = trace s @ e2"
         "trace (Destructor (run env cs s)) = trace (run env cs s) @ e3"
      and e2: "\<forall>e\<in>set e2. may_emit s e"
      and e3: "\<forall>e\<in>set e3. setup_event DeviceMode e" by blast
    have "filter is_ClockStart e2 = []" "filter is_ClockStart e3 = []"
      using e2 e3 may_emit_not(2) setup_event_not(3) by (auto simp: filter_empty_conv)
    then show ?thesis using t by simp
  qed
  from ctor_frame [OF s] obtain c es where
    c: "trace s = c @ es" "\<forall>e\<in>set es. setup_event DeviceMode e"
       "if bSlave then c = []
        else \<exists>DivI DivF. ClockDivider (GetGPIOClockSourceRate env) nSampleRate = Inr (DivI, DivF)
               \<and> c = [ClockStart DivI DivF (if DivF > 0 then 1 else 0)]"
    by blast
  have es: "filter is_ClockStart es = []"
    using c(2) setup_event_not(3) by (auto simp: filter_empty_conv)
  have first: "if bSlave then filter is_ClockStart (trace s) = []
        else \<exists>DivI DivF.
               filter is_ClockStart (trace s) = [ClockStart DivI DivF (if DivF > 0 then 1 else 0)]
             \<and> hd (trace s) = ClockStart DivI DivF (if DivF > 0 then 1 else 0)
             \<and> (unat DivI, unat DivF)
                 = spec_Divider (unat (GetGPIOClockSourceRate env)) (unat nSampleRate)"
  proof (cases bSlave)
    case True
    then show ?thesis using c(1,3) es by simp
  next
    case False
    with c(3) obtain DivI DivF where
      cd: "ClockDivider (GetGPIOClockSourceRate env) nSampleRate = Inr (DivI, DivF)"
      and cc: "c = [ClockStart DivI DivF (if DivF > 0 then 1 else 0)]" by auto
    from False assms(3) have "0 < GetGPIOClockSourceRate env"
      "GetGPIOClockSourceRate env mod 64 = 0" "8000 \<le> nSampleRate" "nSampleRate \<le> 192000"
      by simp_all
    from ClockDivider_spec [OF this] cd
    have sp: "(unat DivI, unat DivF)
                 = spec_Divider (unat (GetGPIOClockSourceRate env)) (unat nSampleRate)"
      by auto
    have "filter is_ClockStart (trace s) = [ClockStart DivI DivF (if DivF > 0 then 1 else 0)]"
      "hd (trace s) = ClockStart DivI DivF (if DivF > 0 then 1 else 0)"
      using c(1) cc es by simp_all
    with sp False show ?thesis by auto
  qed
  from s first later show ?thesis by blast
qed

theorem C1_clock_divider_witness:
  "(\<exists>s DivI DivF.
       CI2SSoundBaseDevice env_ok (\<lambda>r. 0) 44100 32 False True 0 DeviceModeTXRX = Inr s
     \<and> filter is_ClockStart (trace s) = [ClockStart DivI DivF (if DivF > 0 then 1 else 0)]
     \<and> (unat DivI, unat DivF) = spec_Divider (unat (500000000::u32)) (unat (44100::u32)))
   \<and> (\<exists>s. CI2SSoundBaseDevice env_ok (\<lambda>r. 0) 7 32 True True 0 DeviceModeTXRX = Inr s
     \<and> filter is_ClockStart (trace s) = []
     \<and> filter is_ClockStart (trace (Destructor (run env_ok [CallStart, CallCancel] s))) = [])"
proof -
  have pre: "(32::u32) \<le> 32" "(32::u32) AND 1 = 0"
    by simp_all
  have m: "False \<or> (0 < GetGPIOClockSourceRate env_ok \<and> GetGPIOClockSourceRate env_ok mod 64 = 0
                    \<and> (8000::u32) \<le> 44100 \<and> (44100::u32) \<le> 192000)"
    by (simp add: env_ok_def)
  have sl: "True \<or> (0 < GetGPIOClockSourceRate env_ok \<and> GetGPIOClockSourceRate env_ok mod 64 = 0
                    \<and> (8000::u32) \<le> 7 \<and> (7::u32) \<le> 192000)"
    by simp
  have F: "GetGPIOClockSourceRate env_ok = 500000000" by (simp add: env_ok_def)
  note master = C1_clock_divider [OF pre m, of "\<lambda>r. 0" True 0 DeviceModeTXRX,
                                  unfolded if_False F]
  from master
  have a: "\<exists>s DivI DivF.
       CI2SSoundBaseDevice env_ok (\<lambda>r. 0) 44100 32 False True 0 DeviceModeTXRX = Inr s
     \<and> filter is_ClockStart (trace s) = [ClockStart DivI DivF (if DivF > 0 then 1 else 0)]
     \<and> (unat DivI, unat DivF) = spec_Divider (unat (500000000::u32)) (unat (44100::u32))"
    by blast
  note slave = C1_clock_divider [OF pre sl, of "\<lambda>r. 0" True 0 DeviceModeTXRX,
                                 unfolded if_True]
  from slave
  have b: "\<exists>s. CI2SSoundBaseDevice env_ok (\<lambda>r. 0) 7 32 True True 0 DeviceModeTXRX = Inr s
     \<and> filter is_ClockStart (trace s) = []
     \<and> filter is_ClockStart (trace (Destructor (run env_ok [CallStart, CallCancel] s))) = []"
    by metis
  from a b show ?thesis by (rule conjI)
qed

section \<open>Sample range\<close>

text \<open>
  Claim C10. The sample-range accessors return the symmetric 24-bit signed range: the
  minimum is -(2^23)+1 = -8388607 and the maximum is (2^23)-1 = 8388607, whatever the state
  of the device (mode, role, parameters) is.
\<close>

theorem C10_sample_range:
  "GetRangeMin s = - (2 ^ 23) + 1 \<and> GetRangeMin s = - 8388607
   \<and> GetRangeMax s = 2 ^ 23 - 1 \<and> GetRangeMax s = 8388607
   \<and> GetRangeMin s = - GetRangeMax s"
  by (simp add: GetRangeMin_def GetRangeMax_def)

end
